theory Spec2Isabelle
  imports Main
begin

section \<open>Data model\<close>

text \<open>
  The main process (main.js) talks to the whatsapp-web.js client, to the file system and to
  the renderer window. Strings are character lists, one character per code unit. A JavaScript
  string is falsy when it is empty, an optional field is falsy when it is missing or empty.
  Timestamps are seconds since the epoch; a missing timestamp is \<open>None\<close>.
\<close>

record message =
  msg_id :: string
  msg_timestamp :: "nat option"
  hasMedia :: bool
  msg_type :: string
  msg_body :: string
  data_fileName :: "string option"
  data_mimetype :: "string option"
  data_size :: "nat option"

record chat =
  chat_id :: string
  chat_user :: string
  chat_name :: string
  unreadCount :: int
  chat_timestamp :: "nat option"
  isGroup :: bool

record contact =
  pushname :: string
  contact_name :: string
  contact_number :: string

record media =
  media_filename :: "string option"
  media_mimetype :: string
  media_data :: string

text \<open>
  A backend call resolves to a value, rejects with an error message, or stays pending. A
  call wrapped in \<open>withTimeout\<close> then yields the fallback; a plain \<open>await\<close> of a
  pending call never continues, and the handler gives no reply (\<open>None\<close>).
\<close>

datatype 'a outcome = Resolved 'a | Rejected string | Pending

datatype backend_call =
    GetChats
  | GetChatById string
  | FetchMessages string nat
  | ChatGetContact string
  | MsgGetContact string
  | MsgGetChat string
  | GetProfilePicUrl string
  | DownloadMedia string
  | DeleteMessage string
  | SendSeen string
  | OwnProfilePicUrl

record backend =
  getChats :: "chat list outcome"
  getChatById :: "string \<Rightarrow> chat outcome"
  fetchMessages :: "string \<Rightarrow> nat \<Rightarrow> (message list) outcome"
  chat_getContact :: "string \<Rightarrow> contact outcome"
  msg_getContact :: "string \<Rightarrow> contact outcome"
  msg_getChat :: "string \<Rightarrow> chat outcome"
  getProfilePicUrl :: "string \<Rightarrow> (string option) outcome"
  downloadMedia :: "string \<Rightarrow> (media option) outcome"
  msg_delete :: "string \<Rightarrow> unit outcome"
  sendSeen :: "string \<Rightarrow> unit outcome"
  client_info :: "(string \<times> (string \<times> string) option) option"
  own_profilePicUrl :: "(string option) outcome"
  mime_extension :: "string \<Rightarrow> string option"

text \<open>Messages sent to the renderer with \<open>mainWindow.webContents.send\<close>.\<close>

record message_data =
  md_chatId :: string
  md_chatName :: string
  md_contactNumber :: string
  md_isGroup :: bool
  md_unreadCount :: int
  md_messageId :: string
  md_hasMedia :: bool
  md_type :: string
  md_body :: string
  md_timestamp :: "nat option"
  md_sender :: string
  md_fileName :: "string option"
  md_mimeType :: "string option"
  md_fileSize :: "nat option"
  md_autoDownloaded :: bool
  md_localPath :: "string option"

datatype ipc =
    Status string
  | ErrorText string
  | Qr string
  | Loading nat string
  | DownloadProgress string string
  | BulkProgress nat nat string
  | NewMessage message_data

text \<open>
  One record per call of \<open>initWhatsApp\<close>: the client it constructs and the variables of the
  \<open>startClient\<close> closure that runs on it.
\<close>

record client =
  attempt :: nat
  initPending :: bool
  eventReceived :: bool
  retryTriggered :: bool
  timerArmed :: bool
  timerMs :: nat
  destroyed :: bool
  retryWaiting :: bool

text \<open>
  The state of the main process: the globals \<open>isClientReady\<close> and \<open>whatsappClient\<close> (an
  index into the clients constructed so far), the downloads directory on disk (path to
  content; \<open>fs_locked\<close> are the paths on which a write or an unlink throws), the number of
  times the auth directory was removed, and what was sent and called so far.
\<close>

record app_state =
  isClientReady :: bool
  whatsappClient :: "nat option"
  clients :: "client list"
  fs_files :: "string \<rightharpoonup> string"
  fs_locked :: "string set"
  authRemovals :: nat
  lockCleanups :: nat
  sent :: "ipc list"
  calls :: "backend_call list"
  reconnectsPending :: nat
  logoutsPending :: nat
  logoutTimers :: nat
  now :: nat

section \<open>Helpers\<close>

definition DOWNLOADS_DIR :: string where
  "DOWNLOADS_DIR = ''downloads''"

text \<open>\<open>path.join\<close> of the downloads directory and a plain file name.\<close>

definition path_join :: "string \<Rightarrow> string \<Rightarrow> string" where
  "path_join d f = d @ ''/'' @ f"

definition is_alnum :: "char \<Rightarrow> bool" where
  "is_alnum c = (let n = (of_char c :: nat) in
     (48 \<le> n \<and> n \<le> 57) \<or> (65 \<le> n \<and> n \<le> 90) \<or> (97 \<le> n \<and> n \<le> 122))"

text \<open>\<open>id.replace(/[^a-zA-Z0-9]/g, "_")\<close>\<close>

definition sanitize :: "string \<Rightarrow> string" where
  "sanitize s = map (\<lambda>c. if is_alnum c then c else CHR ''_'') s"

definition digit_char :: "nat \<Rightarrow> char" where
  "digit_char d = ''0123456789'' ! d"

fun show_nat :: "nat \<Rightarrow> string" where
  "show_nat n = (if n < 10 then [digit_char n] else show_nat (n div 10) @ [digit_char (n mod 10)])"

declare show_nat.simps [simp del]

text \<open>A number in a template string; \<open>undefined\<close> prints as its name.\<close>

definition show_ts :: "nat option \<Rightarrow> string" where
  "show_ts t = (case t of None \<Rightarrow> ''undefined'' | Some n \<Rightarrow> show_nat n)"

text \<open>\<open>x || d\<close> on strings, optional strings and optional numbers.\<close>

definition str_or :: "string \<Rightarrow> string \<Rightarrow> string" where
  "str_or s d = (if s = [] then d else s)"

definition truthy :: "string option \<Rightarrow> bool" where
  "truthy s = (case s of None \<Rightarrow> False | Some x \<Rightarrow> x \<noteq> [])"

definition opt_or :: "string option \<Rightarrow> string option \<Rightarrow> string option" where
  "opt_or s d = (if truthy s then s else d)"

definition ts_or0 :: "nat option \<Rightarrow> nat" where
  "ts_or0 t = (case t of None \<Rightarrow> 0 | Some n \<Rightarrow> n)"

definition size_or_null :: "nat option \<Rightarrow> nat option" where
  "size_or_null z = (case z of Some n \<Rightarrow> (if n = 0 then None else Some n) | None \<Rightarrow> None)"

text \<open>
  \<open>withTimeout(promise, ms, fallback)\<close>: the fallback when the promise is still pending at
  the timeout, the promise's own result or rejection otherwise.
\<close>

definition withTimeout :: "'a outcome \<Rightarrow> 'a \<Rightarrow> string + 'a" where
  "withTimeout p fallback = (case p of Resolved v \<Rightarrow> Inr v | Rejected e \<Rightarrow> Inl e | Pending \<Rightarrow> Inr fallback)"

text \<open>
  \<open>xs.slice(-k)\<close> for a positive \<open>k\<close>: the last \<open>k\<close> elements, all of them when there are
  fewer.
\<close>

definition slice_last :: "nat \<Rightarrow> 'a list \<Rightarrow> 'a list" where
  "slice_last k xs = drop (length xs - k) xs"

text \<open>
  \<open>Array.prototype.sort\<close> is stable. Ascending with \<open>(a.timestamp || 0) - (b.timestamp || 0)\<close>,
  descending with the operands swapped.
\<close>

definition sort_asc :: "('a \<Rightarrow> nat option) \<Rightarrow> 'a list \<Rightarrow> 'a list" where
  "sort_asc ts xs = sort_key (\<lambda>x. int (ts_or0 (ts x))) xs"

definition sort_desc :: "('a \<Rightarrow> nat option) \<Rightarrow> 'a list \<Rightarrow> 'a list" where
  "sort_desc ts xs = sort_key (\<lambda>x. - int (ts_or0 (ts x))) xs"

definition log_call :: "backend_call list \<Rightarrow> app_state \<Rightarrow> app_state" where
  "log_call cs s = s\<lparr>calls := calls s @ cs\<rparr>"

definition send :: "ipc list \<Rightarrow> app_state \<Rightarrow> app_state" where
  "send ms s = s\<lparr>sent := sent s @ ms\<rparr>"

text \<open>\<open>fs.writeFileSync\<close>, \<open>fs.existsSync\<close> and \<open>fs.unlinkSync\<close> on the downloads directory.\<close>

definition writeFileSync :: "string \<Rightarrow> string \<Rightarrow> app_state \<Rightarrow> string + app_state" where
  "writeFileSync p d s =
     (if p \<in> fs_locked s then Inl ''EPERM'' else Inr (s\<lparr>fs_files := (fs_files s)(p \<mapsto> d)\<rparr>))"

definition existsSync :: "app_state \<Rightarrow> string \<Rightarrow> bool" where
  "existsSync s p = (fs_files s p \<noteq> None)"

definition unlinkSync :: "string \<Rightarrow> app_state \<Rightarrow> string + app_state" where
  "unlinkSync p s =
     (if p \<in> fs_locked s then Inl ''EPERM'' else Inr (s\<lparr>fs_files := (fs_files s)(p := None)\<rparr>))"

section \<open>File indexer: get-chat-files\<close>

record media_info =
  mi_messageId :: string
  mi_chatId :: string
  mi_sender :: string
  mi_timestamp :: "nat option"
  mi_type :: string
  mi_caption :: string
  mi_fileName :: string
  mi_mimeType :: "string option"
  mi_fileSize :: "nat option"
  mi_isDownloaded :: bool
  mi_localPath :: "string option"
  mi_isUnread :: bool

text \<open>
  The ids of the unread messages: the last \<open>unreadCount\<close> messages of the list sorted
  ascending by timestamp, nothing when the counter is not positive.
\<close>

definition unreadMsgIds :: "int \<Rightarrow> message list \<Rightarrow> string set" where
  "unreadMsgIds k messages =
     (let sortedMsgs = sort_asc msg_timestamp messages
      in if k > 0 then set (map msg_id (slice_last (nat k) sortedMsgs)) else {})"

text \<open>The name the listing gives to a media message: the document's own, else synthesized.\<close>

definition listed_fileName :: "backend \<Rightarrow> message \<Rightarrow> string" where
  "listed_fileName be msg =
     (if truthy (data_fileName msg) then the (data_fileName msg)
      else let mt = (if truthy (data_mimetype msg) then the (data_mimetype msg)
                     else ''application/octet-stream'');
               ext = (case opt_or (mime_extension be mt) (Some ''bin'') of
                        Some e \<Rightarrow> e | None \<Rightarrow> ''bin'');
               typePrefix = str_or (msg_type msg) ''file''
           in typePrefix @ ''_'' @ show_ts (msg_timestamp msg) @ ''.'' @ ext)"

definition expectedPath :: "backend \<Rightarrow> message \<Rightarrow> string" where
  "expectedPath be msg =
     path_join DOWNLOADS_DIR (sanitize (msg_id msg) @ ''_'' @ listed_fileName be msg)"

definition contact_display :: "contact \<Rightarrow> string \<Rightarrow> string" where
  "contact_display c d =
     str_or (pushname c) (str_or (contact_name c) (str_or (contact_number c) d))"

definition senderName :: "backend \<Rightarrow> message \<Rightarrow> string option" where
  "senderName be msg =
     (case msg_getContact be (msg_id msg) of
        Pending \<Rightarrow> None
      | Rejected e \<Rightarrow> Some ''Unknown''
      | Resolved c \<Rightarrow> Some (contact_display c ''Unknown''))"

definition mediaInfo ::
  "backend \<Rightarrow> app_state \<Rightarrow> string \<Rightarrow> string set \<Rightarrow> string \<Rightarrow> message \<Rightarrow> media_info" where
  "mediaInfo be s chatId unread sender msg =
     \<lparr> mi_messageId = msg_id msg,
       mi_chatId = chatId,
       mi_sender = sender,
       mi_timestamp = msg_timestamp msg,
       mi_type = msg_type msg,
       mi_caption = msg_body msg,
       mi_fileName = listed_fileName be msg,
       mi_mimeType = (if truthy (data_mimetype msg) then data_mimetype msg else None),
       mi_fileSize = size_or_null (data_size msg),
       mi_isDownloaded = existsSync s (expectedPath be msg),
       mi_localPath = (if existsSync s (expectedPath be msg) then Some (expectedPath be msg) else None),
       mi_isUnread = (msg_id msg \<in> unread) \<rparr>"

text \<open>The loop over the fetched messages: one entry per message with media, in order.\<close>

fun media_infos ::
  "backend \<Rightarrow> app_state \<Rightarrow> string \<Rightarrow> string set \<Rightarrow> message list \<Rightarrow> media_info list option" where
  "media_infos be s chatId unread [] = Some []"
| "media_infos be s chatId unread (msg # rest) =
     (if hasMedia msg then
        (case senderName be msg of
           None \<Rightarrow> None
         | Some sender \<Rightarrow>
             (case media_infos be s chatId unread rest of
                None \<Rightarrow> None
              | Some files \<Rightarrow> Some (mediaInfo be s chatId unread sender msg # files)))
      else media_infos be s chatId unread rest)"

text \<open>
  The handler. A rejected backend call is caught and returned as \<open>{error: err.message}\<close>.
\<close>

definition get_chat_files ::
  "backend \<Rightarrow> string \<Rightarrow> app_state \<Rightarrow> ((string + media_info list \<times> int) \<times> app_state) option" where
  "get_chat_files be chatId s =
     (if \<not> isClientReady s then Some (Inl ''WhatsApp not ready'', s)
      else case getChatById be chatId of
        Pending \<Rightarrow> None
      | Rejected e \<Rightarrow> Some (Inl e, log_call [GetChatById chatId] s)
      | Resolved ch \<Rightarrow>
          (case fetchMessages be chatId 50 of
             Pending \<Rightarrow> None
           | Rejected e \<Rightarrow> Some (Inl e, log_call [GetChatById chatId, FetchMessages chatId 50] s)
           | Resolved messages \<Rightarrow>
               (case media_infos be s chatId (unreadMsgIds (unreadCount ch) messages) messages of
                  None \<Rightarrow> None
                | Some files \<Rightarrow>
                    Some (Inr (sort_desc mi_timestamp files, unreadCount ch),
                          log_call ([GetChatById chatId, FetchMessages chatId 50]
                                    @ map (\<lambda>m. MsgGetContact (msg_id m)) (filter hasMedia messages)) s))))"

section \<open>Job executor: download-file and download-all-files\<close>

record download_ok =
  dl_localPath :: string
  dl_fileName :: string
  dl_size :: nat

text \<open>
  \<open>fileName || media.filename\<close>, else \<open>file_{Date.now()}.{ext}\<close> from the media's MIME type.
\<close>

definition download_finalFileName :: "backend \<Rightarrow> app_state \<Rightarrow> string option \<Rightarrow> media \<Rightarrow> string" where
  "download_finalFileName be s fileName m =
     (case opt_or fileName (media_filename m) of
        Some f \<Rightarrow> (if f \<noteq> [] then f
                   else ''file_'' @ show_nat (now s) @ ''.'' @
                        the (opt_or (mime_extension be (media_mimetype m)) (Some ''bin'')))
      | None \<Rightarrow> ''file_'' @ show_nat (now s) @ ''.'' @
                  the (opt_or (mime_extension be (media_mimetype m)) (Some ''bin'')))"

definition download_file ::
  "backend \<Rightarrow> string \<Rightarrow> string \<Rightarrow> string option \<Rightarrow> app_state
     \<Rightarrow> ((string + download_ok) \<times> app_state) option" where
  "download_file be messageId chatId fileName s =
     (if \<not> isClientReady s then Some (Inl ''WhatsApp not ready'', s)
      else case getChatById be chatId of
        Pending \<Rightarrow> None
      | Rejected e \<Rightarrow>
          Some (Inl e, send [DownloadProgress messageId ''error''] (log_call [GetChatById chatId] s))
      | Resolved ch \<Rightarrow>
          (case fetchMessages be chatId 100 of
             Pending \<Rightarrow> None
           | Rejected e \<Rightarrow>
               Some (Inl e, send [DownloadProgress messageId ''error'']
                              (log_call [GetChatById chatId, FetchMessages chatId 100] s))
           | Resolved messages \<Rightarrow>
               (let s1 = log_call [GetChatById chatId, FetchMessages chatId 100] s
                in case find (\<lambda>m. msg_id m = messageId) messages of
                  None \<Rightarrow> Some (Inl ''Message not found'', s1)
                | Some msg \<Rightarrow>
                    if \<not> hasMedia msg then Some (Inl ''Message has no media'', s1)
                    else
                      (let s2 = log_call [DownloadMedia (msg_id msg)]
                                  (send [DownloadProgress messageId ''downloading''] s1)
                       in case downloadMedia be (msg_id msg) of
                         Pending \<Rightarrow> None
                       | Rejected e \<Rightarrow> Some (Inl e, send [DownloadProgress messageId ''error''] s2)
                       | Resolved None \<Rightarrow> Some (Inl ''Failed to download media'', s2)
                       | Resolved (Some m) \<Rightarrow>
                           (let finalFileName = download_finalFileName be s fileName m;
                                safeMsgId = sanitize messageId;
                                localPath = path_join DOWNLOADS_DIR (safeMsgId @ ''_'' @ finalFileName)
                            in case writeFileSync localPath (media_data m) s2 of
                              Inl e \<Rightarrow> Some (Inl e, send [DownloadProgress messageId ''error''] s2)
                            | Inr s3 \<Rightarrow>
                                Some (Inr \<lparr> dl_localPath = localPath,
                                            dl_fileName = finalFileName,
                                            dl_size = length (media_data m) \<rparr>,
                                      send [DownloadProgress messageId ''complete''] s3))))))"

datatype bulk_result = BulkOk string download_ok | BulkErr string string

text \<open>
  In the bulk download the order is \<open>media.filename\<close>, then the document's own name, then
  \<open>{type}_{timestamp}.{ext}\<close>.
\<close>

definition bulk_finalFileName :: "backend \<Rightarrow> message \<Rightarrow> media \<Rightarrow> string" where
  "bulk_finalFileName be msg m =
     (if truthy (media_filename m) then the (media_filename m)
      else if truthy (data_fileName msg) then the (data_fileName msg)
      else str_or (msg_type msg) ''file'' @ ''_'' @ show_ts (msg_timestamp msg) @ ''.'' @
           the (opt_or (mime_extension be (media_mimetype m)) (Some ''bin'')))"

fun download_loop ::
  "backend \<Rightarrow> nat \<Rightarrow> nat \<Rightarrow> message list \<Rightarrow> app_state \<Rightarrow> (bulk_result list \<times> app_state) option" where
  "download_loop be n_total i [] s = Some ([], s)"
| "download_loop be n_total i (msg # rest) s =
     (let s1 = log_call [DownloadMedia (msg_id msg)]
                 (send [BulkProgress (i + 1) n_total (msg_id msg)] s)
      in case downloadMedia be (msg_id msg) of
        Pending \<Rightarrow> None
      | Rejected e \<Rightarrow>
          map_option (\<lambda>(rs, s'). (BulkErr (msg_id msg) e # rs, s'))
            (download_loop be n_total (i + 1) rest s1)
      | Resolved None \<Rightarrow>
          map_option (\<lambda>(rs, s'). (BulkErr (msg_id msg) ''Failed to download'' # rs, s'))
            (download_loop be n_total (i + 1) rest s1)
      | Resolved (Some m) \<Rightarrow>
          (let finalFileName = bulk_finalFileName be msg m;
               localPath = path_join DOWNLOADS_DIR (sanitize (msg_id msg) @ ''_'' @ finalFileName)
           in case writeFileSync localPath (media_data m) s1 of
             Inl e \<Rightarrow>
               map_option (\<lambda>(rs, s'). (BulkErr (msg_id msg) e # rs, s'))
                 (download_loop be n_total (i + 1) rest s1)
           | Inr s2 \<Rightarrow>
               map_option
                 (\<lambda>(rs, s'). (BulkOk (msg_id msg)
                                 \<lparr> dl_localPath = localPath, dl_fileName = finalFileName,
                                   dl_size = length (media_data m) \<rparr> # rs, s'))
                 (download_loop be n_total (i + 1) rest s2)))"

definition download_all_files ::
  "backend \<Rightarrow> string \<Rightarrow> app_state \<Rightarrow> ((string + bulk_result list) \<times> app_state) option" where
  "download_all_files be chatId s =
     (if \<not> isClientReady s then Some (Inl ''WhatsApp not ready'', s)
      else case getChatById be chatId of
        Pending \<Rightarrow> None
      | Rejected e \<Rightarrow> Some (Inl e, log_call [GetChatById chatId] s)
      | Resolved ch \<Rightarrow>
          (case fetchMessages be chatId 100 of
             Pending \<Rightarrow> None
           | Rejected e \<Rightarrow> Some (Inl e, log_call [GetChatById chatId, FetchMessages chatId 100] s)
           | Resolved messages \<Rightarrow>
               (let mediaMessages = filter hasMedia messages
                in map_option (\<lambda>(rs, s'). (Inr rs, s'))
                     (download_loop be (length mediaMessages) 0 mediaMessages
                        (log_call [GetChatById chatId, FetchMessages chatId 100] s)))))"

section \<open>The incoming-message listener\<close>

text \<open>
  The file name the listener puts into the notification: \<open>msg._data?.fileName || null\<close>,
  replaced when falsy by \<open>{type || "file"}_{timestamp}.{ext}\<close>.
\<close>

definition incoming_fileName :: "backend \<Rightarrow> message \<Rightarrow> string" where
  "incoming_fileName be msg =
     (case opt_or (data_fileName msg) None of
        Some f \<Rightarrow> f
      | None \<Rightarrow>
          str_or (msg_type msg) ''file'' @ ''_'' @ show_ts (msg_timestamp msg) @ ''.'' @
          the (opt_or (mime_extension be
                 (the (opt_or (data_mimetype msg) (Some ''application/octet-stream''))))
               (Some ''bin'')))"

definition incoming_data :: "backend \<Rightarrow> chat \<Rightarrow> contact \<Rightarrow> message \<Rightarrow> message_data" where
  "incoming_data be ch c msg =
     \<lparr> md_chatId = chat_id ch,
       md_chatName = str_or (chat_name ch) (contact_display c ''Unknown''),
       md_contactNumber = str_or (chat_user ch) (chat_id ch),
       md_isGroup = isGroup ch,
       md_unreadCount = unreadCount ch,
       md_messageId = msg_id msg,
       md_hasMedia = hasMedia msg,
       md_type = msg_type msg,
       md_body = msg_body msg,
       md_timestamp = msg_timestamp msg,
       md_sender = contact_display c ''Unknown'',
       md_fileName = (if hasMedia msg then Some (incoming_fileName be msg) else None),
       md_mimeType = (if hasMedia msg then opt_or (data_mimetype msg) None else None),
       md_fileSize = (if hasMedia msg then size_or_null (data_size msg) else None),
       md_autoDownloaded = False,
       md_localPath = None \<rparr>"

text \<open>
  The auto-download inside the listener, in its own \<open>try\<close>: a rejection or a failed write
  is logged to the console and nothing else happens.
\<close>

definition auto_download ::
  "backend \<Rightarrow> message \<Rightarrow> message_data \<Rightarrow> app_state \<Rightarrow> (message_data \<times> app_state) option" where
  "auto_download be msg md s =
     (let s1 = log_call [DownloadMedia (msg_id msg)] s
      in case downloadMedia be (msg_id msg) of
        Pending \<Rightarrow> None
      | Rejected e \<Rightarrow> Some (md, s1)
      | Resolved None \<Rightarrow> Some (md, s1)
      | Resolved (Some m) \<Rightarrow>
          (let finalFileName = download_finalFileName be s (md_fileName md) m;
               safeMsgId = sanitize (msg_id msg);
               localPath = path_join DOWNLOADS_DIR (safeMsgId @ ''_'' @ finalFileName)
           in case writeFileSync localPath (media_data m) s1 of
             Inl e \<Rightarrow> Some (md, s1)
           | Inr s2 \<Rightarrow> Some (md\<lparr>md_autoDownloaded := True, md_localPath := Some localPath\<rparr>, s2)))"

definition on_message :: "backend \<Rightarrow> message \<Rightarrow> app_state \<Rightarrow> app_state option" where
  "on_message be msg s =
     (case msg_getChat be (msg_id msg) of
        Pending \<Rightarrow> None
      | Rejected e \<Rightarrow> Some (log_call [MsgGetChat (msg_id msg)] s)
      | Resolved ch \<Rightarrow>
          (case msg_getContact be (msg_id msg) of
             Pending \<Rightarrow> None
           | Rejected e \<Rightarrow> Some (log_call [MsgGetChat (msg_id msg), MsgGetContact (msg_id msg)] s)
           | Resolved c \<Rightarrow>
               (let s1 = log_call [MsgGetChat (msg_id msg), MsgGetContact (msg_id msg)] s;
                    md = incoming_data be ch c msg
                in if hasMedia msg then
                     (case auto_download be msg md s1 of
                        None \<Rightarrow> None
                      | Some (md', s2) \<Rightarrow> Some (send [NewMessage md'] s2))
                   else Some (send [NewMessage md] s1))))"

section \<open>Job executor: delete-files\<close>

datatype del_result = DelOk string | DelErr string string

datatype wa_result = WaOk string | WaErr string string | WaChatErr string

text \<open>Pass 1: the local files, one result per path.\<close>

fun delete_local :: "string list \<Rightarrow> app_state \<Rightarrow> del_result list \<times> app_state" where
  "delete_local [] s = ([], s)"
| "delete_local (filePath # rest) s =
     (if existsSync s filePath then
        (case unlinkSync filePath s of
           Inr s' \<Rightarrow> (let (rs, s'') = delete_local rest s' in (DelOk filePath # rs, s''))
         | Inl e \<Rightarrow> (let (rs, s'') = delete_local rest s in (DelErr filePath e # rs, s'')))
      else (let (rs, s'') = delete_local rest s
            in (DelErr filePath ''File not found on disk'' # rs, s'')))"

text \<open>Pass 2: the messages on WhatsApp, one result per message id.\<close>

fun delete_messages ::
  "backend \<Rightarrow> message list \<Rightarrow> string list \<Rightarrow> app_state \<Rightarrow> (wa_result list \<times> app_state) option" where
  "delete_messages be messages [] s = Some ([], s)"
| "delete_messages be messages (msgId # rest) s =
     (case find (\<lambda>m. msg_id m = msgId) messages of
        None \<Rightarrow>
          map_option (\<lambda>(rs, s'). (WaErr msgId ''Message not found in chat'' # rs, s'))
            (delete_messages be messages rest s)
      | Some msg \<Rightarrow>
          (case msg_delete be (msg_id msg) of
             Pending \<Rightarrow> None
           | Rejected e \<Rightarrow>
               map_option (\<lambda>(rs, s'). (WaErr msgId e # rs, s'))
                 (delete_messages be messages rest (log_call [DeleteMessage (msg_id msg)] s))
           | Resolved u \<Rightarrow>
               map_option (\<lambda>(rs, s'). (WaOk msgId # rs, s'))
                 (delete_messages be messages rest (log_call [DeleteMessage (msg_id msg)] s))))"

definition delete_wa ::
  "backend \<Rightarrow> string list option \<Rightarrow> string option \<Rightarrow> app_state
     \<Rightarrow> (wa_result list \<times> app_state) option" where
  "delete_wa be messageIds chatId s =
     (if isClientReady s \<and> truthy chatId \<and> messageIds \<noteq> None \<and> length (the messageIds) > 0 then
        (case getChatById be (the chatId) of
           Pending \<Rightarrow> None
         | Rejected e \<Rightarrow> Some ([WaChatErr e], log_call [GetChatById (the chatId)] s)
         | Resolved ch \<Rightarrow>
             (case fetchMessages be (the chatId) 100 of
                Pending \<Rightarrow> None
              | Rejected e \<Rightarrow>
                  Some ([WaChatErr e],
                        log_call [GetChatById (the chatId), FetchMessages (the chatId) 100] s)
              | Resolved messages \<Rightarrow>
                  delete_messages be messages (the messageIds)
                    (log_call [GetChatById (the chatId), FetchMessages (the chatId) 100] s)))
      else Some ([], s))"

definition delete_files ::
  "backend \<Rightarrow> string list \<Rightarrow> string list option \<Rightarrow> string option \<Rightarrow> app_state
     \<Rightarrow> ((del_result list \<times> wa_result list) \<times> app_state) option" where
  "delete_files be filePaths messageIds chatId s =
     (let (results, s1) = delete_local filePaths s
      in map_option (\<lambda>(waResults, s2). ((results, waResults), s2))
           (delete_wa be messageIds chatId s1))"

section \<open>Chat indexer: get-unread-chats, get-all-chats\<close>

record chat_entry =
  ce_id :: string
  ce_name :: string
  ce_number :: string
  ce_whatsappName :: string
  ce_unreadCount :: int
  ce_isGroup :: bool
  ce_profilePicUrl :: "string option"
  ce_timestamp :: "nat option"
  ce_lastMessage :: string

definition BROADCAST :: string where
  "BROADCAST = ''status@broadcast''"

definition last_preview :: "message list \<Rightarrow> string" where
  "last_preview msgs =
     (case msgs of
        [] \<Rightarrow> []
      | m # rest \<Rightarrow> if hasMedia m then ''['' @ msg_type m @ '']'' else take 50 (msg_body m))"

text \<open>
  The current handler enriches every chat under \<open>withTimeout\<close>, so it always replies. A
  rejection inside the \<open>try\<close> keeps what was assigned before it.
\<close>

definition enrich :: "backend \<Rightarrow> chat \<Rightarrow> chat_entry" where
  "enrich be ch =
     (let contactNumber = str_or (chat_user ch) (chat_id ch);
          (savedName, whatsappName, pic) =
            (case withTimeout (map_outcome Some (chat_getContact be (chat_id ch))) None of
               Inl e \<Rightarrow> (chat_name ch, [], None)
             | Inr None \<Rightarrow> (chat_name ch, [], None)
             | Inr (Some c) \<Rightarrow>
                 (if chat_name ch = [] \<or> chat_name ch = contactNumber then contact_name c
                  else chat_name ch,
                  pushname c,
                  case withTimeout (getProfilePicUrl be (chat_id ch)) None of
                    Inl e \<Rightarrow> None
                  | Inr u \<Rightarrow> u));
          lastMessage =
            (case withTimeout (fetchMessages be (chat_id ch) 1) [] of
               Inl e \<Rightarrow> []
             | Inr msgs \<Rightarrow> last_preview msgs)
      in \<lparr> ce_id = chat_id ch,
           ce_name = str_or savedName (str_or whatsappName contactNumber),
           ce_number = contactNumber,
           ce_whatsappName = whatsappName,
           ce_unreadCount = unreadCount ch,
           ce_isGroup = isGroup ch,
           ce_profilePicUrl = opt_or pic None,
           ce_timestamp = chat_timestamp ch,
           ce_lastMessage = lastMessage \<rparr>)"

definition enrich_calls :: "backend \<Rightarrow> chat \<Rightarrow> backend_call list" where
  "enrich_calls be ch =
     ChatGetContact (chat_id ch) #
     (case chat_getContact be (chat_id ch) of
        Resolved c \<Rightarrow> [GetProfilePicUrl (chat_id ch)]
      | Rejected e \<Rightarrow> []
      | Pending \<Rightarrow> [])
     @ [FetchMessages (chat_id ch) 1]"

definition get_unread_chats ::
  "backend \<Rightarrow> app_state \<Rightarrow> (string + chat_entry list) \<times> app_state" where
  "get_unread_chats be s =
     (if \<not> isClientReady s then (Inl ''WhatsApp not ready'', s)
      else case withTimeout (getChats be) [] of
        Inl e \<Rightarrow> (Inl e, log_call [GetChats] s)
      | Inr chats \<Rightarrow>
          if chats = [] then (Inr [], log_call [GetChats] s)
          else
            (let allChats = sort_desc chat_timestamp (filter (\<lambda>c. chat_id c \<noteq> BROADCAST) chats);
                 result = map (enrich be) allChats
             in (Inr (sort_desc ce_timestamp result),
                 log_call (GetChats # concat (map (enrich_calls be) allChats)) s)))"

text \<open>
  The earlier handler: chats with unread messages or activity in the last 24 hours,
  enriched one after the other with plain \<open>await\<close>s.
\<close>

definition is_recent :: "nat \<Rightarrow> chat \<Rightarrow> bool" where
  "is_recent now_ms ch =
     (unreadCount ch > 0 \<or>
      (case chat_timestamp ch of
         None \<Rightarrow> False
       | Some t \<Rightarrow> t \<noteq> 0 \<and> int t > int (now_ms div 1000) - 86400))"

definition recent_entry :: "backend \<Rightarrow> chat \<Rightarrow> chat_entry option" where
  "recent_entry be ch =
     (let contactNumber = str_or (chat_user ch) (chat_id ch);
          contactName0 = str_or (chat_name ch) ''Unknown''
      in case (case chat_getContact be (chat_id ch) of
                 Pending \<Rightarrow> None
               | Rejected e \<Rightarrow> Some (contactName0, None)
               | Resolved c \<Rightarrow>
                   (case getProfilePicUrl be (chat_id ch) of
                      Pending \<Rightarrow> None
                    | Rejected e \<Rightarrow> Some (contact_display c contactName0, None)
                    | Resolved u \<Rightarrow> Some (contact_display c contactName0, u))) of
           None \<Rightarrow> None
         | Some (contactName, pic) \<Rightarrow>
             (case fetchMessages be (chat_id ch) 1 of
                Pending \<Rightarrow> None
              | Rejected e \<Rightarrow>
                  Some \<lparr> ce_id = chat_id ch, ce_name = contactName, ce_number = contactNumber,
                         ce_whatsappName = [], ce_unreadCount = unreadCount ch,
                         ce_isGroup = isGroup ch, ce_profilePicUrl = opt_or pic None,
                         ce_timestamp = chat_timestamp ch, ce_lastMessage = [] \<rparr>
              | Resolved msgs \<Rightarrow>
                  Some \<lparr> ce_id = chat_id ch, ce_name = contactName, ce_number = contactNumber,
                         ce_whatsappName = [], ce_unreadCount = unreadCount ch,
                         ce_isGroup = isGroup ch, ce_profilePicUrl = opt_or pic None,
                         ce_timestamp = chat_timestamp ch, ce_lastMessage = last_preview msgs \<rparr>))"

fun recent_entries :: "backend \<Rightarrow> chat list \<Rightarrow> chat_entry list option" where
  "recent_entries be [] = Some []"
| "recent_entries be (ch # rest) =
     (case recent_entry be ch of
        None \<Rightarrow> None
      | Some e \<Rightarrow> map_option (\<lambda>es. e # es) (recent_entries be rest))"

definition get_unread_chats_recent ::
  "backend \<Rightarrow> app_state \<Rightarrow> ((string + chat_entry list) \<times> app_state) option" where
  "get_unread_chats_recent be s =
     (if \<not> isClientReady s then Some (Inl ''WhatsApp not ready'', s)
      else case getChats be of
        Pending \<Rightarrow> None
      | Rejected e \<Rightarrow> Some (Inl e, log_call [GetChats] s)
      | Resolved chats \<Rightarrow>
          (let recentChats = filter (is_recent (now s)) chats
           in map_option
                (\<lambda>result. (Inr (sort_desc ce_timestamp result),
                            log_call (GetChats # concat (map (enrich_calls be) recentChats)) s))
                (recent_entries be recentChats)))"

text \<open>
  get-all-chats: the first \<open>limit\<close> chats by recency; its entries carry no picture, no
  WhatsApp name and no preview.
\<close>

definition all_entry :: "backend \<Rightarrow> chat \<Rightarrow> chat_entry option" where
  "all_entry be ch =
     (case chat_getContact be (chat_id ch) of
        Pending \<Rightarrow> None
      | Rejected e \<Rightarrow>
          Some \<lparr> ce_id = chat_id ch, ce_name = str_or (chat_name ch) ''Unknown'',
                 ce_number = str_or (chat_user ch) (chat_id ch), ce_whatsappName = [],
                 ce_unreadCount = unreadCount ch, ce_isGroup = isGroup ch,
                 ce_profilePicUrl = None, ce_timestamp = chat_timestamp ch, ce_lastMessage = [] \<rparr>
      | Resolved c \<Rightarrow>
          Some \<lparr> ce_id = chat_id ch,
                 ce_name = contact_display c (str_or (chat_name ch) ''Unknown''),
                 ce_number = str_or (chat_user ch) (chat_id ch), ce_whatsappName = [],
                 ce_unreadCount = unreadCount ch, ce_isGroup = isGroup ch,
                 ce_profilePicUrl = None, ce_timestamp = chat_timestamp ch, ce_lastMessage = [] \<rparr>)"

fun all_entries :: "backend \<Rightarrow> chat list \<Rightarrow> chat_entry list option" where
  "all_entries be [] = Some []"
| "all_entries be (ch # rest) =
     (case all_entry be ch of
        None \<Rightarrow> None
      | Some e \<Rightarrow> map_option (\<lambda>es. e # es) (all_entries be rest))"

definition get_all_chats ::
  "backend \<Rightarrow> nat \<Rightarrow> app_state \<Rightarrow> ((string + chat_entry list) \<times> app_state) option" where
  "get_all_chats be limit s =
     (if \<not> isClientReady s then Some (Inl ''WhatsApp not ready'', s)
      else case getChats be of
        Pending \<Rightarrow> None
      | Rejected e \<Rightarrow> Some (Inl e, log_call [GetChats] s)
      | Resolved chats \<Rightarrow>
          (let sorted = take limit (sort_desc chat_timestamp
                                      (filter (\<lambda>c. chat_id c \<noteq> BROADCAST) chats))
           in map_option
                (\<lambda>result. (Inr result,
                            log_call (GetChats # map (\<lambda>c. ChatGetContact (chat_id c)) sorted) s))
                (all_entries be sorted)))"

text \<open>An entry of a listing stands for a chat: same id, timestamp and unread counter.\<close>

definition entry_of :: "chat_entry \<Rightarrow> chat \<Rightarrow> bool" where
  "entry_of e c = (ce_id e = chat_id c \<and> ce_timestamp e = chat_timestamp c
                   \<and> ce_unreadCount e = unreadCount c)"

section \<open>mark-chat-read and get-profile-info\<close>

definition mark_chat_read ::
  "backend \<Rightarrow> string \<Rightarrow> app_state \<Rightarrow> ((string + unit) \<times> app_state) option" where
  "mark_chat_read be chatId s =
     (if \<not> isClientReady s then Some (Inl ''WhatsApp not ready'', s)
      else case getChatById be chatId of
        Pending \<Rightarrow> None
      | Rejected e \<Rightarrow> Some (Inl e, log_call [GetChatById chatId] s)
      | Resolved ch \<Rightarrow>
          (case sendSeen be chatId of
             Pending \<Rightarrow> None
           | Rejected e \<Rightarrow> Some (Inl e, log_call [GetChatById chatId, SendSeen chatId] s)
           | Resolved u \<Rightarrow> Some (Inr (), log_call [GetChatById chatId, SendSeen chatId] s)))"

record profile_info =
  pi_name :: string
  pi_number :: string
  pi_profilePicUrl :: "string option"

definition get_profile_info ::
  "backend \<Rightarrow> app_state \<Rightarrow> ((string + profile_info) \<times> app_state) option" where
  "get_profile_info be s =
     (if \<not> isClientReady s \<or> whatsappClient s = None then Some (Inl ''WhatsApp not ready'', s)
      else case client_info be of
        None \<Rightarrow> Some (Inl ''TypeError'', s)
      | Some (pn, None) \<Rightarrow>
          Some (Inr \<lparr> pi_name = str_or pn ''Unknown'', pi_number = [], pi_profilePicUrl = None \<rparr>, s)
      | Some (pn, Some (wid_user, wid_serialized)) \<Rightarrow>
          (case own_profilePicUrl be of
             Pending \<Rightarrow> None
           | Rejected e \<Rightarrow>
               Some (Inr \<lparr> pi_name = str_or pn ''Unknown'', pi_number = wid_user,
                           pi_profilePicUrl = None \<rparr>,
                     log_call [OwnProfilePicUrl] s)
           | Resolved u \<Rightarrow>
               Some (Inr \<lparr> pi_name = str_or pn ''Unknown'', pi_number = wid_user,
                           pi_profilePicUrl = opt_or u None \<rparr>,
                     log_call [OwnProfilePicUrl] s)))"

section \<open>Session supervisor\<close>

definition INIT_TIMEOUT_MS :: nat where
  "INIT_TIMEOUT_MS = 45000"

datatype event =
    EvQr "string option"
  | EvAuthenticated
  | EvReady
  | EvLoading nat string
  | EvDisconnected string
  | EvAuthFailure string

text \<open>
  What the event loop can run next: a lifecycle event of client \<open>i\<close>, the settling of its
  \<open>initialize()\<close>, its initialization timer, the end of the two-second wait inside
  \<open>doRetry\<close>, and the reconnect and logout requests of the renderer with their
  continuations.
\<close>

datatype action =
    Emit nat event
  | InitResolves nat
  | InitRejects nat string
  | TimerElapses nat
  | RetryWaitDone nat
  | Reconnect
  | ReconnectContinues bool
  | Logout
  | LogoutContinues
  | LogoutTimer

definition update_client :: "nat \<Rightarrow> (client \<Rightarrow> client) \<Rightarrow> app_state \<Rightarrow> app_state" where
  "update_client i f s = s\<lparr>clients := (clients s)[i := f (clients s ! i)]\<rparr>"

text \<open>\<open>whatsappClient.destroy()\<close> on whatever client the global holds at that moment.\<close>

definition destroy_current :: "app_state \<Rightarrow> app_state" where
  "destroy_current s =
     (case whatsappClient s of
        None \<Rightarrow> s
      | Some c \<Rightarrow> update_client c (\<lambda>r. r\<lparr>destroyed := True\<rparr>) s)"

definition cleanupStaleLockFiles :: "app_state \<Rightarrow> app_state" where
  "cleanupStaleLockFiles s = s\<lparr>lockCleanups := lockCleanups s + 1\<rparr>"

definition rmAuthDir :: "app_state \<Rightarrow> app_state" where
  "rmAuthDir s = s\<lparr>authRemovals := authRemovals s + 1\<rparr>"

text \<open>
  \<open>initWhatsApp(retryAttempt)\<close>: a new client replaces the global, and \<open>startClient\<close> arms
  the timer and calls \<open>initialize()\<close>.
\<close>

definition initWhatsApp :: "nat \<Rightarrow> app_state \<Rightarrow> app_state" where
  "initWhatsApp retryAttempt s =
     s\<lparr> clients := clients s @
           [\<lparr> attempt = retryAttempt, initPending = True, eventReceived = False,
              retryTriggered = False, timerArmed = True, timerMs = INIT_TIMEOUT_MS,
              destroyed = False, retryWaiting = False \<rparr>],
        whatsappClient := Some (length (clients s)) \<rparr>"

definition markEventReceived :: "nat \<Rightarrow> app_state \<Rightarrow> app_state" where
  "markEventReceived i s = update_client i (\<lambda>r. r\<lparr>eventReceived := True\<rparr>) s"

text \<open>The listeners that \<open>initWhatsApp\<close> registers with \<open>on\<close>.\<close>

fun on_event :: "event \<Rightarrow> app_state \<Rightarrow> app_state" where
  "on_event (EvQr url) s = (case url of None \<Rightarrow> s | Some u \<Rightarrow> send [Qr u] s)"
| "on_event EvAuthenticated s = send [Status ''authenticated''] s"
| "on_event EvReady s = send [Status ''ready''] (s\<lparr>isClientReady := True\<rparr>)"
| "on_event (EvLoading percent msg) s = send [Loading percent msg] s"
| "on_event (EvDisconnected reason) s = send [Status ''disconnected''] (s\<lparr>isClientReady := False\<rparr>)"
| "on_event (EvAuthFailure msg) s = send [Status ''auth_failure''] s"

text \<open>
  The events on which \<open>startClient\<close> registers \<open>markEventReceived\<close> with \<open>once\<close>: qr,
  authenticated, ready and auth_failure.
\<close>

fun is_init_event :: "event \<Rightarrow> bool" where
  "is_init_event (EvQr url) = True"
| "is_init_event EvAuthenticated = True"
| "is_init_event EvReady = True"
| "is_init_event (EvAuthFailure msg) = True"
| "is_init_event (EvLoading percent msg) = False"
| "is_init_event (EvDisconnected reason) = False"

text \<open>Client \<open>i\<close> emits an event: its listeners run in the order of registration.\<close>

definition emit :: "nat \<Rightarrow> event \<Rightarrow> app_state \<Rightarrow> app_state" where
  "emit i e s = (if is_init_event e then markEventReceived i (on_event e s) else on_event e s)"

text \<open>
  \<open>doRetry\<close> up to its two-second wait, and from there on. The flag \<open>retryTriggered\<close>
  belongs to the attempt.
\<close>

definition doRetry :: "nat \<Rightarrow> app_state \<Rightarrow> app_state" where
  "doRetry i s =
     (if retryTriggered (clients s ! i) then s
      else destroy_current
             (update_client i (\<lambda>r. r\<lparr>retryTriggered := True, retryWaiting := True\<rparr>) s))"

definition FATAL :: string where
  "FATAL = ''Failed to start WhatsApp after multiple attempts. Please restart the app.''"

definition doRetry_continues :: "nat \<Rightarrow> app_state \<Rightarrow> app_state" where
  "doRetry_continues i s =
     (let s1 = update_client i (\<lambda>r. r\<lparr>retryWaiting := False\<rparr>) s
      in if attempt (clients s ! i) < 3 then
           initWhatsApp (attempt (clients s ! i) + 1)
             (send [Status ''retrying'']
                (cleanupStaleLockFiles
                   (if \<not> eventReceived (clients s ! i) then rmAuthDir s1 else s1)))
         else send [Status ''error'', ErrorText FATAL] s1)"

fun step :: "action \<Rightarrow> app_state \<Rightarrow> app_state" where
  "step (Emit i e) s = (if i < length (clients s) then emit i e s else s)"
| "step (InitResolves i) s =
     (if i < length (clients s) \<and> initPending (clients s ! i)
      then update_client i (\<lambda>r. r\<lparr>initPending := False, timerArmed := False\<rparr>) s
      else s)"
| "step (InitRejects i err) s =
     (if i < length (clients s) \<and> initPending (clients s ! i)
      then doRetry i (update_client i (\<lambda>r. r\<lparr>initPending := False, timerArmed := False\<rparr>) s)
      else s)"
| "step (TimerElapses i) s =
     (if i < length (clients s) \<and> timerArmed (clients s ! i)
      then (let s1 = update_client i (\<lambda>r. r\<lparr>timerArmed := False\<rparr>) s
            in if \<not> eventReceived (clients s ! i) then doRetry i s1 else s1)
      else s)"
| "step (RetryWaitDone i) s =
     (if i < length (clients s) \<and> retryWaiting (clients s ! i)
      then doRetry_continues i s
      else s)"
| "step Reconnect s =
     (case whatsappClient s of
        None \<Rightarrow> initWhatsApp 1 (s\<lparr>isClientReady := False\<rparr>)
      | Some c \<Rightarrow> (destroy_current s)\<lparr>reconnectsPending := reconnectsPending s + 1\<rparr>)"
| "step (ReconnectContinues ok) s =
     (if reconnectsPending s = 0 then s
      else if ok
      then initWhatsApp 1 (s\<lparr>reconnectsPending := reconnectsPending s - 1, isClientReady := False\<rparr>)
      else s\<lparr>reconnectsPending := reconnectsPending s - 1\<rparr>)"
| "step Logout s = s\<lparr>logoutsPending := logoutsPending s + 1\<rparr>"
| "step LogoutContinues s =
     (if logoutsPending s = 0 then s
      else send [Status ''logged_out'']
             (rmAuthDir
                ((destroy_current s)\<lparr>logoutsPending := logoutsPending s - 1,
                                      isClientReady := False,
                                      logoutTimers := logoutTimers s + 1\<rparr>)))"
| "step LogoutTimer s =
     (if logoutTimers s = 0 then s
      else initWhatsApp 1 (s\<lparr>logoutTimers := logoutTimers s - 1\<rparr>))"

definition run :: "action list \<Rightarrow> app_state \<Rightarrow> app_state" where
  "run acts s = foldl (\<lambda>st a. step a st) s acts"

text \<open>The process after \<open>app.whenReady()\<close>: one lock clean-up, then \<open>initWhatsApp()\<close>.\<close>

definition boot :: app_state where
  "boot = initWhatsApp 1
     \<lparr> isClientReady = False, whatsappClient = None, clients = [],
       fs_files = Map.empty, fs_locked = {}, authRemovals = 0, lockCleanups = 1,
       sent = [], calls = [], reconnectsPending = 0, logoutsPending = 0,
       logoutTimers = 0, now = 0 \<rparr>"

definition live_clients :: "app_state \<Rightarrow> nat" where
  "live_clients s = length (filter (\<lambda>r. \<not> destroyed r) (clients s))"

definition count_status :: "string \<Rightarrow> app_state \<Rightarrow> nat" where
  "count_status st s = length (filter (\<lambda>m. m = Status st) (sent s))"

text \<open>
  What holds in every state the process can reach: the global names a constructed client;
  a pending timer means \<open>doRetry\<close> has not run for that attempt; an attempt waiting inside
  \<open>doRetry\<close> has its flag set; every timer was started with the same duration.
\<close>

definition client_ok :: "client \<Rightarrow> bool" where
  "client_ok r = ((timerArmed r \<longrightarrow> \<not> retryTriggered r)
                  \<and> (retryWaiting r \<longrightarrow> retryTriggered r)
                  \<and> timerMs r = INIT_TIMEOUT_MS)"

definition state_ok :: "app_state \<Rightarrow> bool" where
  "state_ok s = (whatsappClient s \<noteq> None \<and> the (whatsappClient s) < length (clients s)
                 \<and> list_all client_ok (clients s))"

text \<open>The attempts whose \<open>doRetry\<close> has run to its end.\<close>

definition retries_done :: "app_state \<Rightarrow> nat" where
  "retries_done s = length (filter (\<lambda>r. retryTriggered r \<and> \<not> retryWaiting r) (clients s))"

text \<open>
  An initialization attempt that fails without any lifecycle event: its timer elapses, or
  \<open>initialize()\<close> rejects. Three such failures in a row, each followed by the end of the
  wait in \<open>doRetry\<close>.
\<close>

datatype failure = ByTimeout | ByInitError

fun fails :: "failure \<Rightarrow> nat \<Rightarrow> action" where
  "fails ByTimeout i = TimerElapses i"
| "fails ByInitError i = InitRejects i ''init failed''"

definition three_failures :: "failure \<Rightarrow> failure \<Rightarrow> failure \<Rightarrow> action list" where
  "three_failures f1 f2 f3 =
     [fails f1 0, RetryWaitDone 0, fails f2 1, RetryWaitDone 1, fails f3 2, RetryWaitDone 2]"

text \<open>A manual reconnect arriving while the first attempt's retry waits.\<close>

definition reconnect_during_retry :: "action list" where
  "reconnect_during_retry =
     [InitRejects 0 ''init failed'', Reconnect, ReconnectContinues True, RetryWaitDone 0]"

section \<open>Example data\<close>

text \<open>
  A chat with unread counter 2 and three retrieved messages: a text at 100, an image named
  photo.jpg at 200 and a PDF without a name of its own at 300. Next to it the status
  pseudo-chat and a chat that has been silent for a long time.
\<close>

definition ex_m1 :: message where
  "ex_m1 = \<lparr> msg_id = ''m1@c'', msg_timestamp = Some 100, hasMedia = False, msg_type = ''chat'',
             msg_body = ''hello'', data_fileName = None, data_mimetype = None, data_size = None \<rparr>"

definition ex_m2 :: message where
  "ex_m2 = \<lparr> msg_id = ''m2@c'', msg_timestamp = Some 200, hasMedia = True, msg_type = ''image'',
             msg_body = [], data_fileName = Some ''photo.jpg'', data_mimetype = Some ''image/jpeg'',
             data_size = Some 8 \<rparr>"

definition ex_m3 :: message where
  "ex_m3 = \<lparr> msg_id = ''m3@c'', msg_timestamp = Some 300, hasMedia = True, msg_type = ''document'',
             msg_body = [], data_fileName = None, data_mimetype = Some ''application/pdf'',
             data_size = Some 7 \<rparr>"

definition ex_messages :: "message list" where
  "ex_messages = [ex_m1, ex_m2, ex_m3]"

definition ex_chat :: chat where
  "ex_chat = \<lparr> chat_id = ''C1'', chat_user = ''9471'', chat_name = ''Ann'', unreadCount = 2,
               chat_timestamp = Some 999000, isGroup = False \<rparr>"

definition ex_status_chat :: chat where
  "ex_status_chat = \<lparr> chat_id = ''status@broadcast'', chat_user = ''status'', chat_name = [],
                      unreadCount = 3, chat_timestamp = Some 999500, isGroup = False \<rparr>"

definition ex_old_chat :: chat where
  "ex_old_chat = \<lparr> chat_id = ''C2'', chat_user = ''9472'', chat_name = ''Bob'', unreadCount = 0,
                   chat_timestamp = Some 1000, isGroup = False \<rparr>"

definition ex_contact :: contact where
  "ex_contact = \<lparr> pushname = ''Ann'', contact_name = [], contact_number = ''9471'' \<rparr>"

definition ex_mime :: "string \<Rightarrow> string option" where
  "ex_mime t = (if t = ''application/pdf'' then Some ''pdf''
                else if t = ''image/jpeg'' then Some ''jpeg'' else None)"

definition ex_fetch :: "string \<Rightarrow> nat \<Rightarrow> (message list) outcome" where
  "ex_fetch c n = (if c = ''C1'' then Resolved (slice_last n ex_messages) else Resolved [])"

definition ex_chatById :: "string \<Rightarrow> chat outcome" where
  "ex_chatById c = (if c = ''C1'' then Resolved ex_chat else Rejected ''chat not found'')"

definition ex_media :: "string \<Rightarrow> (media option) outcome" where
  "ex_media i =
     (if i = ''m2@c'' then Resolved (Some \<lparr> media_filename = None, media_mimetype = ''image/jpeg'',
                                            media_data = ''JPEGDATA'' \<rparr>)
      else if i = ''m3@c'' then Resolved (Some \<lparr> media_filename = Some ''report.pdf'',
                                                 media_mimetype = ''application/pdf'',
                                                 media_data = ''PDFDATA'' \<rparr>)
      else Rejected ''no media'')"

definition ex_msg_contact :: "string \<Rightarrow> contact outcome" where
  "ex_msg_contact i = Resolved ex_contact"

definition ex_msg_chat :: "string \<Rightarrow> chat outcome" where
  "ex_msg_chat i = Resolved ex_chat"

definition ex_pic :: "string \<Rightarrow> (string option) outcome" where
  "ex_pic c = Resolved None"

definition ex_unit :: "string \<Rightarrow> unit outcome" where
  "ex_unit i = Resolved ()"

definition ex_backend :: backend where
  "ex_backend =
     \<lparr> getChats = Resolved [ex_old_chat, ex_status_chat, ex_chat],
       getChatById = ex_chatById,
       fetchMessages = ex_fetch,
       chat_getContact = ex_msg_contact,
       msg_getContact = ex_msg_contact,
       msg_getChat = ex_msg_chat,
       getProfilePicUrl = ex_pic,
       downloadMedia = ex_media,
       msg_delete = ex_unit,
       sendSeen = ex_unit,
       client_info = Some (''Shop'', Some (''9470'', ''9470@c.us'')),
       own_profilePicUrl = Resolved None,
       mime_extension = ex_mime \<rparr>"

text \<open>The session is ready, nothing is on disk, and the clock shows second 1000000.\<close>

definition ex_state :: app_state where
  "ex_state = boot\<lparr>isClientReady := True, now := 1000000000\<rparr>"

definition ex_file_m2 :: media_info where
  "ex_file_m2 =
     \<lparr> mi_messageId = ''m2@c'', mi_chatId = ''C1'', mi_sender = ''Ann'', mi_timestamp = Some 200,
       mi_type = ''image'', mi_caption = [], mi_fileName = ''photo.jpg'',
       mi_mimeType = Some ''image/jpeg'', mi_fileSize = Some 8, mi_isDownloaded = False,
       mi_localPath = None, mi_isUnread = True \<rparr>"

definition ex_file_m3 :: media_info where
  "ex_file_m3 =
     \<lparr> mi_messageId = ''m3@c'', mi_chatId = ''C1'', mi_sender = ''Ann'', mi_timestamp = Some 300,
       mi_type = ''document'', mi_caption = [], mi_fileName = ''document_300.pdf'',
       mi_mimeType = Some ''application/pdf'', mi_fileSize = Some 7, mi_isDownloaded = False,
       mi_localPath = None, mi_isUnread = True \<rparr>"

definition ex_listing_calls :: "backend_call list" where
  "ex_listing_calls =
     [GetChatById ''C1'', FetchMessages ''C1'' 50, MsgGetContact ''m2@c'', MsgGetContact ''m3@c'']"

text \<open>
  Two single downloads of the PDF from the ready state: one without a file name, one
  with the name the listing shows.
\<close>

definition ex_dl_unnamed :: download_ok where
  "ex_dl_unnamed = \<lparr> dl_localPath = ''downloads/m3_c_report.pdf'', dl_fileName = ''report.pdf'',
                     dl_size = 7 \<rparr>"

definition ex_after_unnamed :: app_state where
  "ex_after_unnamed =
     send [DownloadProgress ''m3@c'' ''complete'']
       ((log_call [DownloadMedia ''m3@c'']
           (send [DownloadProgress ''m3@c'' ''downloading'']
              (log_call [GetChatById ''C1'', FetchMessages ''C1'' 100] ex_state)))
        \<lparr>fs_files := [''downloads/m3_c_report.pdf'' \<mapsto> ''PDFDATA'']\<rparr>)"

definition ex_dl_named :: download_ok where
  "ex_dl_named = \<lparr> dl_localPath = ''downloads/m3_c_document_300.pdf'',
                   dl_fileName = ''document_300.pdf'', dl_size = 7 \<rparr>"

definition ex_after_named :: app_state where
  "ex_after_named =
     send [DownloadProgress ''m3@c'' ''complete'']
       ((log_call [DownloadMedia ''m3@c'']
           (send [DownloadProgress ''m3@c'' ''downloading'']
              (log_call [GetChatById ''C1'', FetchMessages ''C1'' 100] ex_state)))
        \<lparr>fs_files := [''downloads/m3_c_document_300.pdf'' \<mapsto> ''PDFDATA'']\<rparr>)"

definition ex_file_m3_downloaded :: media_info where
  "ex_file_m3_downloaded =
     ex_file_m3\<lparr>mi_isDownloaded := True,
                mi_localPath := Some ''downloads/m3_c_document_300.pdf''\<rparr>"

text \<open>
  The PDF arriving as a new message, once with the media available and once with the
  media download rejected.
\<close>

definition ex_md_m3 :: message_data where
  "ex_md_m3 =
     \<lparr> md_chatId = ''C1'', md_chatName = ''Ann'', md_contactNumber = ''9471'', md_isGroup = False,
       md_unreadCount = 2, md_messageId = ''m3@c'', md_hasMedia = True, md_type = ''document'',
       md_body = [], md_timestamp = Some 300, md_sender = ''Ann'',
       md_fileName = Some ''document_300.pdf'', md_mimeType = Some ''application/pdf'',
       md_fileSize = Some 7, md_autoDownloaded = False, md_localPath = None \<rparr>"

definition ex_md_m3_downloaded :: message_data where
  "ex_md_m3_downloaded =
     ex_md_m3\<lparr>md_autoDownloaded := True,
              md_localPath := Some ''downloads/m3_c_document_300.pdf''\<rparr>"

definition ex_after_message :: app_state where
  "ex_after_message =
     send [NewMessage ex_md_m3_downloaded]
       ((log_call [MsgGetChat ''m3@c'', MsgGetContact ''m3@c'', DownloadMedia ''m3@c''] ex_state)
        \<lparr>fs_files := [''downloads/m3_c_document_300.pdf'' \<mapsto> ''PDFDATA'']\<rparr>)"

definition ex_media_expired :: "string \<Rightarrow> (media option) outcome" where
  "ex_media_expired i = Rejected ''media expired''"

definition ex_backend_expired :: backend where
  "ex_backend_expired = ex_backend\<lparr>downloadMedia := ex_media_expired\<rparr>"

definition ex_after_failed_message :: app_state where
  "ex_after_failed_message =
     send [NewMessage ex_md_m3]
       (log_call [MsgGetChat ''m3@c'', MsgGetContact ''m3@c'', DownloadMedia ''m3@c''] ex_state)"

text \<open>
  Five delete targets of which the third is not on disk, and the same disk with the
  first file held open by another program.
\<close>

definition ex_disk :: app_state where
  "ex_disk = ex_state\<lparr>fs_files := [''downloads/a1.pdf'' \<mapsto> ''A1'', ''downloads/a2.pdf'' \<mapsto> ''A2'',
                                    ''downloads/a4.pdf'' \<mapsto> ''A4'', ''downloads/a5.pdf'' \<mapsto> ''A5'']\<rparr>"

definition ex_disk_locked :: app_state where
  "ex_disk_locked = ex_disk\<lparr>fs_locked := {''downloads/a1.pdf''}\<rparr>"

definition ex_paths :: "string list" where
  "ex_paths = [''downloads/a1.pdf'', ''downloads/a2.pdf'', ''downloads/a3.pdf'',
               ''downloads/a4.pdf'', ''downloads/a5.pdf'']"

definition ex_del_results :: "del_result list" where
  "ex_del_results =
     [DelOk ''downloads/a1.pdf'', DelOk ''downloads/a2.pdf'',
      DelErr ''downloads/a3.pdf'' ''File not found on disk'',
      DelOk ''downloads/a4.pdf'', DelOk ''downloads/a5.pdf'']"

definition ex_wa_results :: "wa_result list" where
  "ex_wa_results = [WaOk ''m2@c'', WaErr ''zz'' ''Message not found in chat'']"

text \<open>What the two versions of get-unread-chats list for the three example chats.\<close>

definition ex_entry_C1 :: chat_entry where
  "ex_entry_C1 =
     \<lparr> ce_id = ''C1'', ce_name = ''Ann'', ce_number = ''9471'', ce_whatsappName = ''Ann'',
       ce_unreadCount = 2, ce_isGroup = False, ce_profilePicUrl = None,
       ce_timestamp = Some 999000, ce_lastMessage = ''[document]'' \<rparr>"

definition ex_entry_C2 :: chat_entry where
  "ex_entry_C2 =
     \<lparr> ce_id = ''C2'', ce_name = ''Bob'', ce_number = ''9472'', ce_whatsappName = ''Ann'',
       ce_unreadCount = 0, ce_isGroup = False, ce_profilePicUrl = None,
       ce_timestamp = Some 1000, ce_lastMessage = [] \<rparr>"

definition ex_entry_status :: chat_entry where
  "ex_entry_status =
     \<lparr> ce_id = ''status@broadcast'', ce_name = ''Ann'', ce_number = ''status'',
       ce_whatsappName = [], ce_unreadCount = 3, ce_isGroup = False, ce_profilePicUrl = None,
       ce_timestamp = Some 999500, ce_lastMessage = [] \<rparr>"

definition ex_entry_C1_recent :: chat_entry where
  "ex_entry_C1_recent = ex_entry_C1\<lparr>ce_whatsappName := []\<rparr>"

definition ex_chats_calls :: "backend_call list" where
  "ex_chats_calls =
     [GetChats,
      ChatGetContact ''C1'', GetProfilePicUrl ''C1'', FetchMessages ''C1'' 1,
      ChatGetContact ''C2'', GetProfilePicUrl ''C2'', FetchMessages ''C2'' 1]"

definition ex_recent_calls :: "backend_call list" where
  "ex_recent_calls =
     [GetChats,
      ChatGetContact ''status@broadcast'', GetProfilePicUrl ''status@broadcast'',
      FetchMessages ''status@broadcast'' 1,
      ChatGetContact ''C1'', GetProfilePicUrl ''C1'', FetchMessages ''C1'' 1]"

section \<open>Properties of the file indexer\<close>

lemmas ex_defs = ex_backend_def ex_chatById_def ex_fetch_def ex_messages_def ex_m1_def ex_m2_def
  ex_m3_def ex_chat_def ex_msg_contact_def ex_contact_def ex_mime_def ex_media_def
  ex_msg_chat_def ex_pic_def ex_unit_def ex_status_chat_def ex_old_chat_def

lemmas eval_defs = get_chat_files_def download_file_def slice_last_def
        senderName_def contact_display_def str_or_def mediaInfo_def listed_fileName_def truthy_def
        opt_or_def show_ts_def show_nat.simps digit_char_def size_or_null_def existsSync_def
        expectedPath_def boot_def initWhatsApp_def sort_desc_def ts_or0_def 
        log_call_def send_def writeFileSync_def download_finalFileName_def sanitize_def
        is_alnum_def path_join_def DOWNLOADS_DIR_def INIT_TIMEOUT_MS_def Let_def

lemma slice_last_min: "slice_last (nat k) xs = drop (length xs - nat (min k (int (length xs)))) xs"
  by (cases "k \<le> int (length xs)") (auto simp: slice_last_def min_def)

lemma unreadMsgIds_last:
  "unreadMsgIds k messages =
     msg_id ` set (drop (length messages - nat (min k (int (length messages))))
                     (sort_asc msg_timestamp messages))"
proof (cases "k > 0")
  case True
  have "length (sort_asc msg_timestamp messages) = length messages"
    by (simp add: sort_asc_def)
  with True show ?thesis
    using slice_last_min [of k "sort_asc msg_timestamp messages"]
    by (simp add: unreadMsgIds_def Let_def)
next
  case False
  then have "nat (min k (int (length messages))) = 0" by simp
  with False show ?thesis
    by (simp add: unreadMsgIds_def Let_def sort_asc_def)
qed

lemma unreadMsgIds_zero: "unreadMsgIds 0 messages = {}"
  by (simp add: unreadMsgIds_def)

lemma unreadMsgIds_all:
  assumes "int (length messages) \<le> k" and "messages \<noteq> []"
  shows "unreadMsgIds k messages = msg_id ` set messages"
proof -
  from assms have k: "k > 0" by (cases messages) auto
  from assms(1) have "length (sort_asc msg_timestamp messages) - nat k = 0"
    by (simp add: sort_asc_def)
  then have "slice_last (nat k) (sort_asc msg_timestamp messages) = sort_asc msg_timestamp messages"
    by (simp add: slice_last_def)
  with k show ?thesis
    by (simp add: unreadMsgIds_def Let_def) (simp add: sort_asc_def)
qed

lemma mediaInfo_sel:
  "mi_messageId (mediaInfo be s cid U sn m) = msg_id m"
  "mi_isUnread (mediaInfo be s cid U sn m) = (msg_id m \<in> U)"
  "mi_isDownloaded (mediaInfo be s cid U sn m) = existsSync s (expectedPath be m)"
  "mi_localPath (mediaInfo be s cid U sn m) =
     (if existsSync s (expectedPath be m) then Some (expectedPath be m) else None)"
  "mi_fileName (mediaInfo be s cid U sn m) = listed_fileName be m"
  by (simp_all add: mediaInfo_def)

lemma sort_asc_sorted:
  "sorted (map (\<lambda>m. ts_or0 (ts m)) (sort_asc ts xs))"
proof -
  have "sorted (map (\<lambda>m. int (ts_or0 (ts m))) (sort_asc ts xs))"
    by (simp add: sort_asc_def)
  then show ?thesis
    by (simp add: sorted_map sorted_wrt_iff_nth_less)
qed

lemma sort_asc_stable:
  "filter (\<lambda>m. ts_or0 (ts m) = t) (sort_asc ts xs) = filter (\<lambda>m. ts_or0 (ts m) = t) xs"
  using sort_key_stable [of "\<lambda>m. int (ts_or0 (ts m))" "int t" xs]
  by (simp add: sort_asc_def)

lemma media_infos_map:
  "media_infos be s cid U msgs = Some fs \<Longrightarrow>
     fs = map (\<lambda>m. mediaInfo be s cid U (the (senderName be m)) m) (filter hasMedia msgs)"
  by (induction msgs arbitrary: fs) (auto split: if_splits option.splits)

lemma get_chat_files_Inr:
  assumes "get_chat_files be chatId s = Some (Inr (files, uc), s')"
    and "getChatById be chatId = Resolved ch"
    and "fetchMessages be chatId 50 = Resolved messages"
  shows "uc = unreadCount ch"
    and "set files = (\<lambda>m. mediaInfo be s chatId (unreadMsgIds (unreadCount ch) messages)
                          (the (senderName be m)) m) ` {m \<in> set messages. hasMedia m}"
proof -
  from assms obtain fs where
    fs: "media_infos be s chatId (unreadMsgIds (unreadCount ch) messages) messages = Some fs"
    and res: "files = sort_desc mi_timestamp fs" "uc = unreadCount ch"
    by (auto simp: get_chat_files_def split: if_splits option.splits)
  show "uc = unreadCount ch" by (rule res)
  from media_infos_map [OF fs] res(1)
  show "set files = (\<lambda>m. mediaInfo be s chatId (unreadMsgIds (unreadCount ch) messages)
                          (the (senderName be m)) m) ` {m \<in> set messages. hasMedia m}"
    by (auto simp: sort_desc_def)
qed

lemma distinct_ids_set:
  assumes "distinct (map msg_id messages)" and "set ys \<subseteq> set messages"
  shows "{m \<in> set messages. msg_id m \<in> msg_id ` set ys} = set ys"
proof -
  from assms(1) have "inj_on msg_id (set messages)"
    by (simp add: distinct_map)
  with assms(2) show ?thesis
    by (auto dest: inj_onD)
qed

lemma ex_unread: "unreadMsgIds 2 ex_messages = {''m2@c'', ''m3@c''}"
  by (simp add: unreadMsgIds_def sort_asc_def slice_last_def ts_or0_def ex_defs)

lemma ex_get_chat_files:
  "get_chat_files ex_backend ''C1'' ex_state
     = Some (Inr ([ex_file_m3, ex_file_m2], 2), log_call ex_listing_calls ex_state)"
  by (simp add: get_chat_files_def ex_defs ex_state_def slice_last_def ex_unread [unfolded ex_defs]
        senderName_def contact_display_def str_or_def mediaInfo_def listed_fileName_def truthy_def
        opt_or_def show_ts_def show_nat.simps digit_char_def size_or_null_def existsSync_def
        expectedPath_def boot_def initWhatsApp_def sort_desc_def ts_or0_def ex_file_m2_def
        ex_file_m3_def ex_listing_calls_def log_call_def)

lemma ex_getChatById: "getChatById ex_backend ''C1'' = Resolved ex_chat"
  by (simp add: ex_backend_def ex_chatById_def)

lemma ex_fetch_50: "fetchMessages ex_backend ''C1'' 50 = Resolved ex_messages"
  by (simp add: ex_backend_def ex_fetch_def slice_last_def ex_messages_def)




section \<open>Properties of download-file\<close>

lemma download_file_success:
  assumes "download_file be mid cid fn s = Some (Inr r, s1)"
  shows "\<exists>m. dl_fileName r = download_finalFileName be s fn m
           \<and> dl_localPath r = path_join DOWNLOADS_DIR (sanitize mid @ ''_'' @ dl_fileName r)
           \<and> fs_files s1 = (fs_files s)(dl_localPath r \<mapsto> media_data m)
           \<and> isClientReady s1 \<and> isClientReady s"
  using assms
  by (auto simp: download_file_def Let_def writeFileSync_def send_def log_call_def
           split: if_splits outcome.splits option.splits sum.splits)

lemma listed_fileName_nonempty: "listed_fileName be msg \<noteq> []"
  by (auto simp: listed_fileName_def truthy_def Let_def split: option.splits)

lemma finalFileName_given:
  "f \<noteq> [] \<Longrightarrow> download_finalFileName be s (Some f) m = f"
  by (simp add: download_finalFileName_def opt_or_def truthy_def)

lemma media_infos_member:
  assumes "media_infos be s cid U msgs = Some fs" and "msg \<in> set msgs" and "hasMedia msg"
  shows "mediaInfo be s cid U (the (senderName be msg)) msg \<in> set fs"
  using media_infos_map [OF assms(1)] assms(2,3) by auto

lemma get_chat_files_member:
  assumes "get_chat_files be chatId s = Some (Inr (files, uc), s')"
    and "fetchMessages be chatId 50 = Resolved msgs"
    and "msg \<in> set msgs" and "hasMedia msg"
  shows "\<exists>U sn. mediaInfo be s chatId U sn msg \<in> set files"
proof -
  from assms(1,2) obtain U fs where
    "media_infos be s chatId U msgs = Some fs" "files = sort_desc mi_timestamp fs"
    by (auto simp: get_chat_files_def split: if_splits option.splits outcome.splits)
  with media_infos_member [OF this(1) assms(3,4)] show ?thesis
    by (auto simp: sort_desc_def)
qed

lemma ex_download_unnamed:
  "download_file ex_backend ''m3@c'' ''C1'' None ex_state = Some (Inr ex_dl_unnamed, ex_after_unnamed)"
  by (simp add: eval_defs ex_defs ex_state_def ex_dl_unnamed_def ex_after_unnamed_def)

lemma ex_download_named:
  "download_file ex_backend ''m3@c'' ''C1'' (Some ''document_300.pdf'') ex_state
     = Some (Inr ex_dl_named, ex_after_named)"
  by (simp add: eval_defs ex_defs ex_state_def ex_dl_named_def ex_after_named_def)

lemma ex_listing_after_unnamed:
  "get_chat_files ex_backend ''C1'' ex_after_unnamed
     = Some (Inr ([ex_file_m3, ex_file_m2], 2), log_call ex_listing_calls ex_after_unnamed)"
  by (simp add: eval_defs ex_defs ex_state_def ex_after_unnamed_def ex_unread [unfolded ex_defs]
        ex_file_m2_def ex_file_m3_def ex_listing_calls_def)

lemma ex_listing_after_named:
  "get_chat_files ex_backend ''C1'' ex_after_named
     = Some (Inr ([ex_file_m3_downloaded, ex_file_m2], 2), log_call ex_listing_calls ex_after_named)"
  by (simp add: eval_defs ex_defs ex_state_def ex_after_named_def ex_unread [unfolded ex_defs]
        ex_file_m2_def ex_file_m3_def ex_listing_calls_def ex_file_m3_downloaded_def)




section \<open>Properties of the incoming-message listener\<close>

lemma incoming_fileName_listed: "incoming_fileName be msg = listed_fileName be msg"
  by (auto simp: incoming_fileName_def listed_fileName_def opt_or_def truthy_def Let_def
           split: option.splits)

lemma auto_download_success:
  assumes "downloadMedia be (msg_id msg) = Resolved (Some m)"
    and "expectedPath be msg \<notin> fs_locked s"
    and "md_fileName md = Some (incoming_fileName be msg)"
  shows "auto_download be msg md s =
           Some (md\<lparr>md_autoDownloaded := True, md_localPath := Some (expectedPath be msg)\<rparr>,
                 (log_call [DownloadMedia (msg_id msg)] s)
                   \<lparr>fs_files := (fs_files s)(expectedPath be msg \<mapsto> media_data m)\<rparr>)"
  using assms finalFileName_given [OF listed_fileName_nonempty [of be msg]]
  by (simp add: auto_download_def Let_def incoming_fileName_listed expectedPath_def
                writeFileSync_def log_call_def)

lemma auto_download_failure:
  assumes "(\<exists>e. downloadMedia be (msg_id msg) = Rejected e)
         \<or> downloadMedia be (msg_id msg) = Resolved None
         \<or> (\<exists>m. downloadMedia be (msg_id msg) = Resolved (Some m) \<and> expectedPath be msg \<in> fs_locked s)"
    and "md_fileName md = Some (incoming_fileName be msg)"
  shows "auto_download be msg md s = Some (md, log_call [DownloadMedia (msg_id msg)] s)"
  using assms finalFileName_given [OF listed_fileName_nonempty [of be msg]]
  by (auto simp: auto_download_def Let_def incoming_fileName_listed expectedPath_def
                writeFileSync_def log_call_def)

lemma incoming_data_fileName:
  "hasMedia msg \<Longrightarrow> md_fileName (incoming_data be ch c msg) = Some (incoming_fileName be msg)"
  by (simp add: incoming_data_def)

lemma ex_on_message:
  "on_message ex_backend ex_m3 ex_state = Some ex_after_message"
  by (simp add: on_message_def auto_download_def incoming_data_def incoming_fileName_def
        eval_defs ex_defs ex_state_def ex_after_message_def ex_md_m3_def ex_md_m3_downloaded_def)

lemma ex_on_message_failed:
  "on_message ex_backend_expired ex_m3 ex_state = Some ex_after_failed_message"
  by (simp add: on_message_def auto_download_def incoming_data_def incoming_fileName_def
        eval_defs ex_defs ex_state_def ex_after_failed_message_def ex_md_m3_def
        ex_backend_expired_def ex_media_expired_def)

lemma ex_listing_after_message:
  "get_chat_files ex_backend ''C1'' ex_after_message
     = Some (Inr ([ex_file_m3_downloaded, ex_file_m2], 2), log_call ex_listing_calls ex_after_message)"
  by (simp add: eval_defs ex_defs ex_state_def ex_after_message_def ex_unread [unfolded ex_defs]
        ex_file_m2_def ex_file_m3_def ex_listing_calls_def ex_file_m3_downloaded_def)

lemma ex_m3_media: "hasMedia ex_m3"
  by (simp add: ex_m3_def)

lemma ex_m3_chat: "msg_getChat ex_backend (msg_id ex_m3) = Resolved ex_chat"
  by (simp add: ex_backend_def ex_msg_chat_def)

lemma ex_m3_contact: "msg_getContact ex_backend (msg_id ex_m3) = Resolved ex_contact"
  by (simp add: ex_backend_def ex_msg_contact_def)

lemma ex_m3_chat_expired: "msg_getChat ex_backend_expired (msg_id ex_m3) = Resolved ex_chat"
  by (simp add: ex_backend_expired_def ex_backend_def ex_msg_chat_def)

lemma ex_m3_contact_expired:
  "msg_getContact ex_backend_expired (msg_id ex_m3) = Resolved ex_contact"
  by (simp add: ex_backend_expired_def ex_backend_def ex_msg_contact_def)

lemma ex_m3_expectedPath: "expectedPath ex_backend ex_m3 = ''downloads/m3_c_document_300.pdf''"
  by (simp add: eval_defs ex_defs)



section \<open>The readiness gate\<close>

text \<open>
  C5. While \<open>isClientReady\<close> is false, each of get-unread-chats (in both of its
  versions), get-all-chats, get-chat-files, download-file, download-all-files,
  mark-chat-read and get-profile-info answers \<open>{error: "WhatsApp not ready"}\<close> at once:
  the state it returns is the state it was given, so no backend call was logged, nothing
  was sent and nothing on disk changed.
\<close>

theorem not_ready_fails_fast:
  assumes "\<not> isClientReady s"
  shows "get_unread_chats be s = (Inl ''WhatsApp not ready'', s)
     \<and> get_unread_chats_recent be s = Some (Inl ''WhatsApp not ready'', s)
     \<and> get_all_chats be limit s = Some (Inl ''WhatsApp not ready'', s)
     \<and> get_chat_files be chatId s = Some (Inl ''WhatsApp not ready'', s)
     \<and> download_file be messageId chatId fileName s = Some (Inl ''WhatsApp not ready'', s)
     \<and> download_all_files be chatId s = Some (Inl ''WhatsApp not ready'', s)
     \<and> mark_chat_read be chatId s = Some (Inl ''WhatsApp not ready'', s)
     \<and> get_profile_info be s = Some (Inl ''WhatsApp not ready'', s)"
  using assms
  by (simp add: get_unread_chats_def get_unread_chats_recent_def get_all_chats_def
        get_chat_files_def download_file_def download_all_files_def mark_chat_read_def
        get_profile_info_def)

theorem not_ready_fails_fast_witness:
  "\<not> isClientReady boot
   \<and> get_unread_chats ex_backend boot = (Inl ''WhatsApp not ready'', boot)
   \<and> get_unread_chats_recent ex_backend boot = Some (Inl ''WhatsApp not ready'', boot)
   \<and> get_all_chats ex_backend 30 boot = Some (Inl ''WhatsApp not ready'', boot)
   \<and> get_chat_files ex_backend ''C1'' boot = Some (Inl ''WhatsApp not ready'', boot)
   \<and> download_file ex_backend ''m3@c'' ''C1'' None boot = Some (Inl ''WhatsApp not ready'', boot)
   \<and> download_all_files ex_backend ''C1'' boot = Some (Inl ''WhatsApp not ready'', boot)
   \<and> mark_chat_read ex_backend ''C1'' boot = Some (Inl ''WhatsApp not ready'', boot)
   \<and> get_profile_info ex_backend boot = Some (Inl ''WhatsApp not ready'', boot)
   \<and> calls boot = [] \<and> sent boot = []"
proof -
  have h: "\<not> isClientReady boot" by (simp add: boot_def initWhatsApp_def)
  from not_ready_fails_fast [OF h] h show ?thesis
    by (simp add: boot_def initWhatsApp_def)
qed

section \<open>Properties of delete-files\<close>

lemma delete_local_fields:
  "delete_local ps s = (rs, s') \<Longrightarrow>
     isClientReady s' = isClientReady s \<and> fs_locked s' = fs_locked s \<and> calls s' = calls s
     \<and> sent s' = sent s"
proof (induction ps arbitrary: s rs s')
  case Nil
  then show ?case by simp
next
  case (Cons p ps)
  then show ?case
    by (auto simp: unlinkSync_def split: if_splits prod.splits sum.splits)
qed


lemma delete_local_results:
  "distinct ps \<Longrightarrow> \<forall>q \<in> set ps. q \<notin> fs_locked s \<Longrightarrow>
     fst (delete_local ps s)
       = map (\<lambda>q. if existsSync s q then DelOk q else DelErr q ''File not found on disk'') ps"
proof (induction ps arbitrary: s)
  case Nil
  then show ?case by simp
next
  case (Cons p ps)
  show ?case
  proof (cases "existsSync s p")
    case True
    let ?s' = "s\<lparr>fs_files := (fs_files s)(p := None)\<rparr>"
    from Cons.prems have p: "p \<notin> fs_locked s" "p \<notin> set ps" "distinct ps" by auto
    have locked: "\<forall>q \<in> set ps. q \<notin> fs_locked ?s'" using Cons.prems by simp
    have same: "\<And>q. q \<in> set ps \<Longrightarrow> existsSync ?s' q = existsSync s q"
      using p(2) by (auto simp: existsSync_def)
    have "fst (delete_local ps ?s')
            = map (\<lambda>q. if existsSync s q then DelOk q else DelErr q ''File not found on disk'') ps"
      using Cons.IH [OF p(3) locked] same by (simp cong: map_cong)
    with True p(1) show ?thesis
      by (simp add: unlinkSync_def case_prod_unfold)
  next
    case False
    from Cons.prems have "distinct ps" "\<forall>q \<in> set ps. q \<notin> fs_locked s" by auto
    from Cons.IH [OF this] False show ?thesis
      by (simp add: case_prod_unfold)
  qed
qed

lemma delete_local_cong:
  "fs_files s = fs_files t \<Longrightarrow> fs_locked s = fs_locked t \<Longrightarrow>
     fst (delete_local ps s) = fst (delete_local ps t)
     \<and> fs_files (snd (delete_local ps s)) = fs_files (snd (delete_local ps t))"
proof (induction ps arbitrary: s t)
  case Nil
  then show ?case by simp
next
  case (Cons p ps)
  let ?s' = "s\<lparr>fs_files := (fs_files s)(p := None)\<rparr>"
  let ?t' = "t\<lparr>fs_files := (fs_files t)(p := None)\<rparr>"
  have a: "fs_files ?s' = fs_files ?t'" "fs_locked ?s' = fs_locked ?t'"
    using Cons.prems by simp_all
  have ex: "existsSync s p = existsSync t p" using Cons.prems by (simp add: existsSync_def)
  show ?case
  proof (cases "existsSync t p \<and> p \<notin> fs_locked t")
    case True
    with Cons.IH [OF a] Cons.prems ex show ?thesis
      by (simp add: unlinkSync_def case_prod_unfold Let_def)
  next
    case False
    with Cons.IH [OF Cons.prems] Cons.prems ex show ?thesis
      by (auto simp add: unlinkSync_def case_prod_unfold Let_def)
  qed
qed

lemma map_fst_cons:
  "map_option fst (map_option (\<lambda>(rs, s'). (x # rs, s')) r) = map_option ((#) x) (map_option fst r)"
  by (cases r) auto

lemma delete_messages_fst:
  "map_option fst (delete_messages be msgs ids s) = map_option fst (delete_messages be msgs ids t)"
proof (induction ids arbitrary: s t)
  case Nil
  then show ?case by simp
next
  case (Cons i ids)
  show ?case
  proof (cases "find (\<lambda>m. msg_id m = i) msgs")
    case None
    with Cons.IH [of s t] show ?thesis
      by (simp add: map_fst_cons)
  next
    case (Some msg)
    with Cons.IH [of "log_call [DeleteMessage (msg_id msg)] s" "log_call [DeleteMessage (msg_id msg)] t"]
    show ?thesis
      by (simp add: map_fst_cons split: outcome.splits)
  qed
qed

lemma map_snd_cons:
  "map_option (\<lambda>x. f (snd x)) (map_option (\<lambda>(rs, s'). (g rs, s')) r) = map_option (\<lambda>x. f (snd x)) r"
  by (cases r) auto

lemma delete_messages_fs:
  "map_option (\<lambda>x. fs_files (snd x)) (delete_messages be msgs ids s)
     = map_option (\<lambda>x. fs_files s) (delete_messages be msgs ids s)"
proof (induction ids arbitrary: s)
  case Nil
  then show ?case by simp
next
  case (Cons i ids)
  show ?case
  proof (cases "find (\<lambda>m. msg_id m = i) msgs")
    case None
    with Cons.IH [of s] show ?thesis
      by (simp add: map_snd_cons option.map_comp comp_def case_prod_unfold)
  next
    case (Some msg)
    with Cons.IH [of "log_call [DeleteMessage (msg_id msg)] s"]
    show ?thesis
      by (simp add: map_snd_cons option.map_comp comp_def case_prod_unfold log_call_def
               split: outcome.splits)
  qed
qed

lemma delete_wa_fst:
  "isClientReady s = isClientReady t \<Longrightarrow>
     map_option fst (delete_wa be mids cid s) = map_option fst (delete_wa be mids cid t)"
  using delete_messages_fst
  by (auto simp: delete_wa_def split: outcome.splits)

lemma delete_wa_fs:
  assumes "delete_wa be mids cid s = Some (w, s')"
  shows "fs_files s' = fs_files s"
proof -
  have "map_option (\<lambda>x. fs_files (snd x)) (delete_wa be mids cid s)
          = map_option (\<lambda>x. fs_files s) (delete_wa be mids cid s)"
    using delete_messages_fs [of be _ "the mids"
            "log_call [GetChatById (the cid), FetchMessages (the cid) 100] s"]
    by (auto simp: delete_wa_def log_call_def split: outcome.splits)
  with assms show ?thesis by simp
qed

lemma delete_wa_skipped:
  "\<not> (isClientReady s \<and> truthy cid \<and> mids \<noteq> None \<and> the mids \<noteq> []) \<Longrightarrow>
     delete_wa be mids cid s = Some ([], s)"
  by (auto simp: delete_wa_def)


lemma delete_files_Some:
  "delete_files be ps mids cid s = Some ((r, w), s') \<longleftrightarrow>
     r = fst (delete_local ps s) \<and> delete_wa be mids cid (snd (delete_local ps s)) = Some (w, s')"
  by (auto simp: delete_files_def case_prod_unfold Let_def)

lemma ex_delete_five:
  "map_option fst (delete_files ex_backend ex_paths (Some [''m2@c'', ''zz'']) (Some ''C1'') ex_disk)
     = Some (ex_del_results, ex_wa_results)"
  by (simp add: delete_files_def delete_wa_def unlinkSync_def eval_defs ex_defs ex_disk_def
        ex_state_def ex_paths_def ex_del_results_def ex_wa_results_def option.map_comp comp_def)

lemma ex_delete_twice:
  "map_option fst (delete_files ex_backend
                     [''downloads/a1.pdf'', ''downloads/a1.pdf'', ''downloads/a3.pdf''] None None ex_disk)
     = Some ([DelOk ''downloads/a1.pdf'', DelErr ''downloads/a1.pdf'' ''File not found on disk'',
              DelErr ''downloads/a3.pdf'' ''File not found on disk''], [])"
  by (simp add: delete_files_def delete_wa_def unlinkSync_def eval_defs ex_disk_def ex_state_def)

lemma ex_delete_locked:
  "map_option fst (delete_files ex_backend
                     [''downloads/a1.pdf'', ''downloads/a3.pdf''] None None ex_disk_locked)
     = Some ([DelErr ''downloads/a1.pdf'' ''EPERM'',
              DelErr ''downloads/a3.pdf'' ''File not found on disk''], [])"
  by (simp add: delete_files_def delete_wa_def unlinkSync_def eval_defs ex_disk_def ex_state_def
        ex_disk_locked_def)




section \<open>Properties of get-unread-chats\<close>

lemma insort_key_rel:
  assumes "list_all2 R xs ys" and "R x y" and "\<And>a b. R a b \<Longrightarrow> f a = g b"
  shows "list_all2 R (insort_key f x xs) (insort_key g y ys)"
  using assms(1)
proof (induction rule: list_all2_induct)
  case Nil
  then show ?case using assms(2) by simp
next
  case (Cons a as b bs)
  have "f a = g b" by (rule assms(3) [OF Cons.hyps(1)])
  moreover have "f x = g y" by (rule assms(3) [OF assms(2)])
  ultimately show ?case using Cons assms(2) by simp
qed

lemma sort_key_rel:
  assumes "list_all2 R xs ys" and "\<And>a b. R a b \<Longrightarrow> f a = g b"
  shows "list_all2 R (sort_key f xs) (sort_key g ys)"
  using assms(1)
proof (induction rule: list_all2_induct)
  case Nil
  then show ?case by simp
next
  case (Cons a as b bs)
  from insort_key_rel [OF Cons.IH Cons.hyps(1) assms(2)] show ?case by simp
qed

lemma sort_desc_rel:
  "list_all2 entry_of es cs \<Longrightarrow>
     list_all2 entry_of (sort_desc ce_timestamp es) (sort_desc chat_timestamp cs)"
  unfolding sort_desc_def by (rule sort_key_rel) (simp_all add: entry_of_def)

lemma entry_of_ids: "list_all2 entry_of es cs \<Longrightarrow> map ce_id es = map chat_id cs"
  by (induction rule: list_all2_induct) (simp_all add: entry_of_def)

lemma sort_desc_idem: "sort_desc ts (sort_desc ts xs) = sort_desc ts xs"
  by (simp add: sort_desc_def sort_key_id_if_sorted)

lemma sort_desc_sorted: "sorted (rev (map (\<lambda>x. ts_or0 (ts x)) (sort_desc ts xs)))"
proof -
  have "sorted (map (\<lambda>x. - int (ts_or0 (ts x))) (sort_desc ts xs))"
    by (simp add: sort_desc_def)
  then have "sorted_wrt (\<lambda>x y. ts_or0 (ts y) \<le> ts_or0 (ts x)) (sort_desc ts xs)"
    by (simp add: sorted_wrt_map)
  then show ?thesis
    by (simp add: sorted_wrt_rev sorted_wrt_map)
qed

lemma enrich_entry_of: "entry_of (enrich be c) c"
  by (simp add: enrich_def entry_of_def Let_def split: prod.splits)

lemma recent_entry_of: "recent_entry be c = Some e \<Longrightarrow> entry_of e c"
  by (auto simp: recent_entry_def entry_of_def Let_def split: outcome.splits option.splits prod.splits)

lemma recent_entries_of: "recent_entries be cs = Some es \<Longrightarrow> list_all2 entry_of es cs"
  by (induction cs arbitrary: es) (auto split: option.splits dest: recent_entry_of)


lemma withTimeout_Resolved: "withTimeout (Resolved v) d = Inr v"
  by (simp add: withTimeout_def)

lemmas chats_defs = get_unread_chats_def get_unread_chats_recent_def enrich_def enrich_calls_def
  recent_entry_def is_recent_def last_preview_def withTimeout_def BROADCAST_def

lemma ex_unread_chats:
  "get_unread_chats ex_backend ex_state
     = (Inr [ex_entry_C1, ex_entry_C2], log_call ex_chats_calls ex_state)"
  by (simp add: chats_defs eval_defs ex_defs ex_state_def ex_entry_C1_def ex_entry_C2_def
        ex_chats_calls_def)

lemma ex_unread_chats_recent:
  "get_unread_chats_recent ex_backend ex_state
     = Some (Inr [ex_entry_status, ex_entry_C1_recent],
             log_call ex_recent_calls ex_state)"
  by (simp add: chats_defs eval_defs ex_defs ex_state_def ex_entry_C1_def ex_entry_C1_recent_def ex_entry_status_def
        ex_recent_calls_def)

lemma ex_old_not_recent: "\<not> is_recent (now ex_state) ex_old_chat"
  by (simp add: is_recent_def ex_state_def ex_old_chat_def)

lemma ex_ready: "isClientReady ex_state"
  by (simp add: ex_state_def)

lemma ex_getChats: "getChats ex_backend = Resolved [ex_old_chat, ex_status_chat, ex_chat]"
  by (simp add: ex_backend_def)




section \<open>Properties of the session supervisor\<close>

lemmas sup_defs = run_def boot_def initWhatsApp_def doRetry_def doRetry_continues_def
  update_client_def destroy_current_def cleanupStaleLockFiles_def rmAuthDir_def
  markEventReceived_def send_def INIT_TIMEOUT_MS_def Let_def

lemma list_all_update:
  "list_all P xs \<Longrightarrow> P x \<Longrightarrow> list_all P (xs[i := x])"
  using set_update_subset_insert [of xs i x] by (auto simp: list_all_iff)

lemma list_all_nth: "list_all P xs \<Longrightarrow> i < length xs \<Longrightarrow> P (xs ! i)"
  by (simp add: list_all_length)

lemma clients_fields [simp]:
  "clients (send ms s) = clients s"
  "clients (cleanupStaleLockFiles s) = clients s"
  "clients (rmAuthDir s) = clients s"
  "whatsappClient (send ms s) = whatsappClient s"
  "whatsappClient (cleanupStaleLockFiles s) = whatsappClient s"
  "whatsappClient (rmAuthDir s) = whatsappClient s"
  by (simp_all add: send_def cleanupStaleLockFiles_def rmAuthDir_def)

lemma state_ok_fields [simp]:
  "state_ok (send ms s) = state_ok s"
  "state_ok (s\<lparr>isClientReady := b\<rparr>) = state_ok s"
  "state_ok (cleanupStaleLockFiles s) = state_ok s"
  "state_ok (rmAuthDir s) = state_ok s"
  "state_ok (s\<lparr>reconnectsPending := n\<rparr>) = state_ok s"
  "state_ok (s\<lparr>logoutsPending := n\<rparr>) = state_ok s"
  "state_ok (s\<lparr>logoutTimers := n\<rparr>) = state_ok s"
  by (simp_all add: state_ok_def)

lemma update_client_fields [simp]:
  "length (clients (update_client i f s)) = length (clients s)"
  "whatsappClient (update_client i f s) = whatsappClient s"
  "isClientReady (update_client i f s) = isClientReady s"
  "sent (update_client i f s) = sent s"
  "authRemovals (update_client i f s) = authRemovals s"
  by (simp_all add: update_client_def)

lemma update_client_nth:
  "i < length (clients s) \<Longrightarrow> clients (update_client i f s) ! i = f (clients s ! i)"
  by (simp add: update_client_def)

lemma state_ok_update:
  assumes "state_ok s" and "i < length (clients s)"
    and "client_ok (clients s ! i) \<Longrightarrow> client_ok (f (clients s ! i))"
  shows "state_ok (update_client i f s)"
proof -
  from assms(1,2) have "client_ok (clients s ! i)"
    by (simp add: state_ok_def list_all_nth)
  with assms show ?thesis
    by (simp add: state_ok_def) (simp add: update_client_def list_all_update)
qed

lemma state_ok_init: "state_ok s \<Longrightarrow> state_ok (initWhatsApp a s)"
  by (simp add: state_ok_def initWhatsApp_def client_ok_def)

lemma state_ok_destroy:
  assumes "state_ok s"
  shows "state_ok (destroy_current s)"
proof (cases "whatsappClient s")
  case None
  with assms show ?thesis by (simp add: destroy_current_def)
next
  case (Some c)
  with assms have "c < length (clients s)" by (simp add: state_ok_def)
  with assms have "state_ok (update_client c (\<lambda>r. r\<lparr>destroyed := True\<rparr>) s)"
    by (rule state_ok_update) (simp add: client_ok_def)
  with Some show ?thesis by (simp add: destroy_current_def)
qed

lemma state_ok_mark:
  assumes "state_ok s" and "i < length (clients s)"
  shows "state_ok (markEventReceived i s)"
  unfolding markEventReceived_def using assms
  by (rule state_ok_update) (simp add: client_ok_def)

lemma on_event_fields [simp]:
  "clients (on_event e s) = clients s"
  "whatsappClient (on_event e s) = whatsappClient s"
  "state_ok (on_event e s) = state_ok s"
  by (cases e; simp split: option.splits)+

lemma state_ok_emit:
  assumes "state_ok s" and "i < length (clients s)"
  shows "state_ok (emit i e s)"
  using assms by (simp add: emit_def state_ok_mark)

lemma state_ok_doRetry:
  assumes "state_ok s" and "i < length (clients s)" and "\<not> timerArmed (clients s ! i)"
  shows "state_ok (doRetry i s)"
proof (cases "retryTriggered (clients s ! i)")
  case True
  with assms show ?thesis by (simp add: doRetry_def)
next
  case False
  from assms(1,2)
  have "state_ok (update_client i (\<lambda>r. r\<lparr>retryTriggered := True, retryWaiting := True\<rparr>) s)"
    by (rule state_ok_update) (use assms(3) in \<open>simp add: client_ok_def\<close>)
  with False show ?thesis by (simp add: doRetry_def state_ok_destroy)
qed

lemma state_ok_continues:
  assumes "state_ok s" and "i < length (clients s)"
  shows "state_ok (doRetry_continues i s)"
proof -
  from assms have "state_ok (update_client i (\<lambda>r. r\<lparr>retryWaiting := False\<rparr>) s)"
    by (rule state_ok_update) (simp add: client_ok_def)
  then show ?thesis
    by (simp add: doRetry_continues_def Let_def state_ok_init)
qed

lemma state_ok_disarm:
  assumes "state_ok s" and "i < length (clients s)"
  shows "state_ok (update_client i (\<lambda>r. r\<lparr>initPending := False, timerArmed := False\<rparr>) s)"
    and "state_ok (update_client i (\<lambda>r. r\<lparr>timerArmed := False\<rparr>) s)"
  by (rule state_ok_update [OF assms], simp add: client_ok_def)+

lemma state_ok_step:
  assumes "state_ok s"
  shows "state_ok (step a s)"
proof (cases a)
  case (Emit i e)
  with assms show ?thesis by (simp add: state_ok_emit)
next
  case (InitResolves i)
  with assms show ?thesis by (simp add: state_ok_disarm)
next
  case (InitRejects i err)
  with assms show ?thesis
    by (simp add: state_ok_disarm state_ok_doRetry update_client_nth)
next
  case (TimerElapses i)
  with assms show ?thesis
    by (simp add: state_ok_disarm state_ok_doRetry update_client_nth Let_def)
next
  case (RetryWaitDone i)
  with assms show ?thesis by (simp add: state_ok_continues)
next
  case Reconnect
  with assms state_ok_destroy [OF assms] show ?thesis
    by (cases "whatsappClient s") (simp_all add: state_ok_def)
next
  case (ReconnectContinues ok)
  with assms show ?thesis by (simp add: state_ok_init)
next
  case Logout
  with assms show ?thesis by simp
next
  case LogoutContinues
  with assms state_ok_destroy [OF assms] show ?thesis by (simp add: state_ok_def)
next
  case LogoutTimer
  with assms show ?thesis by (simp add: state_ok_init)
qed

lemma state_ok_boot: "state_ok boot"
  by (simp add: boot_def state_ok_def initWhatsApp_def client_ok_def)

lemma state_ok_run: "state_ok s \<Longrightarrow> state_ok (run acts s)"
  unfolding run_def by (induction acts arbitrary: s) (simp_all add: state_ok_step)


lemma filter_length_split:
  assumes "i < length xs"
  shows "length (filter P xs)
      = length (filter P (take i xs)) + (if P (xs ! i) then 1 else 0)
        + length (filter P (drop (Suc i) xs))"
proof -
  have eq: "take i xs @ xs ! i # drop (Suc i) xs = xs"
    using id_take_nth_drop [OF assms] by simp
  have "length (filter P (take i xs @ xs ! i # drop (Suc i) xs))
      = length (filter P (take i xs)) + (if P (xs ! i) then 1 else 0)
        + length (filter P (drop (Suc i) xs))"
    by simp
  then show ?thesis unfolding eq .
qed

lemma filter_length_update:
  assumes "i < length xs"
  shows "length (filter P (xs[i := x])) + (if P (xs ! i) then 1 else 0)
           = length (filter P xs) + (if P x then 1 else 0)"
proof -
  have "length (filter P (xs[i := x]))
      = length (filter P (take i xs)) + (if P x then 1 else 0)
        + length (filter P (drop (Suc i) xs))"
    using assms by (simp add: upd_conv_take_nth_drop)
  with filter_length_split [OF assms, of P] show ?thesis by simp
qed

lemma retries_done_update:
  assumes "i < length (clients s)"
  shows "retries_done (update_client i f s)
           + (if retryTriggered (clients s ! i) \<and> \<not> retryWaiting (clients s ! i) then 1 else 0)
         = retries_done s
           + (if retryTriggered (f (clients s ! i)) \<and> \<not> retryWaiting (f (clients s ! i)) then 1 else 0)"
  unfolding retries_done_def update_client_def
  using filter_length_update [OF assms, of "\<lambda>r. retryTriggered r \<and> \<not> retryWaiting r"
          "f (clients s ! i)"]
  by simp

lemma retries_done_fields [simp]:
  "retries_done (send ms s) = retries_done s"
  "retries_done (cleanupStaleLockFiles s) = retries_done s"
  "retries_done (rmAuthDir s) = retries_done s"
  "retries_done (on_event e s) = retries_done s"
  "retries_done (initWhatsApp a s) = retries_done s"
  "retries_done (s\<lparr>isClientReady := b\<rparr>) = retries_done s"
  "retries_done (s\<lparr>reconnectsPending := n\<rparr>) = retries_done s"
  "retries_done (s\<lparr>logoutsPending := n\<rparr>) = retries_done s"
  "retries_done (s\<lparr>logoutTimers := n\<rparr>) = retries_done s"
  by (simp_all add: retries_done_def initWhatsApp_def)

lemma count_status_fields [simp]:
  "count_status st (send ms s) = count_status st s + length (filter (\<lambda>m. m = Status st) ms)"
  "count_status st (cleanupStaleLockFiles s) = count_status st s"
  "count_status st (rmAuthDir s) = count_status st s"
  "count_status st (initWhatsApp a s) = count_status st s"
  "count_status st (update_client i f s) = count_status st s"
  "count_status st (destroy_current s) = count_status st s"
  "count_status st (s\<lparr>isClientReady := b\<rparr>) = count_status st s"
  "count_status st (s\<lparr>reconnectsPending := n\<rparr>) = count_status st s"
  "count_status st (s\<lparr>logoutsPending := n\<rparr>) = count_status st s"
  "count_status st (s\<lparr>logoutTimers := n\<rparr>) = count_status st s"
  by (simp_all add: count_status_def send_def cleanupStaleLockFiles_def rmAuthDir_def
        initWhatsApp_def update_client_def destroy_current_def split: option.splits)

lemma retries_done_flag:
  assumes "i < length (clients s)"
    and "\<And>r. retryTriggered (f r) = retryTriggered r" and "\<And>r. retryWaiting (f r) = retryWaiting r"
  shows "retries_done (update_client i f s) = retries_done s"
  using retries_done_update [OF assms(1), of f] assms(2,3) by simp

lemma retries_done_destroy: "retries_done (destroy_current s) = retries_done s"
proof (cases "whatsappClient s")
  case None
  then show ?thesis by (simp add: destroy_current_def)
next
  case (Some c)
  show ?thesis
  proof (cases "c < length (clients s)")
    case True
    with Some show ?thesis by (simp add: destroy_current_def retries_done_flag)
  next
    case False
    with Some show ?thesis
      by (simp add: destroy_current_def update_client_def retries_done_def list_update_beyond)
  qed
qed

lemma retries_done_doRetry:
  assumes "i < length (clients s)"
  shows "retries_done (doRetry i s) = retries_done s"
proof (cases "retryTriggered (clients s ! i)")
  case True
  then show ?thesis by (simp add: doRetry_def)
next
  case False
  with retries_done_update [OF assms, of "\<lambda>r. r\<lparr>retryTriggered := True, retryWaiting := True\<rparr>"]
  show ?thesis by (simp add: doRetry_def retries_done_destroy)
qed

lemma count_status_doRetry [simp]: "count_status st (doRetry i s) = count_status st s"
  by (simp add: doRetry_def)

lemma retrying_continues:
  assumes "state_ok s" and "i < length (clients s)" and "retryWaiting (clients s ! i)"
    and "count_status ''retrying'' s \<le> retries_done s"
  shows "count_status ''retrying'' (doRetry_continues i s) \<le> retries_done (doRetry_continues i s)"
proof -
  let ?s1 = "update_client i (\<lambda>r. r\<lparr>retryWaiting := False\<rparr>) s"
  from assms(1,2) have "client_ok (clients s ! i)"
    by (simp add: state_ok_def list_all_nth)
  with assms(3) have "retryTriggered (clients s ! i)" by (simp add: client_ok_def)
  with assms(3) retries_done_update [OF assms(2), of "\<lambda>r. r\<lparr>retryWaiting := False\<rparr>"]
  have "retries_done ?s1 = Suc (retries_done s)" by simp
  with assms(4) show ?thesis
    by (simp add: doRetry_continues_def Let_def)
qed

lemma retrying_step:
  assumes "state_ok s" and "count_status ''retrying'' s \<le> retries_done s"
  shows "count_status ''retrying'' (step a s) \<le> retries_done (step a s)"
proof (cases a)
  case (Emit i e)
  with assms show ?thesis
    by (cases e) (simp_all add: emit_def markEventReceived_def retries_done_flag split: option.splits)
next
  case (InitResolves i)
  with assms show ?thesis by (simp add: retries_done_flag)
next
  case (InitRejects i err)
  with assms show ?thesis
    by (simp add: retries_done_doRetry retries_done_flag)
next
  case (TimerElapses i)
  with assms show ?thesis
    by (simp add: retries_done_doRetry retries_done_flag Let_def)
next
  case (RetryWaitDone i)
  with assms show ?thesis by (simp add: retrying_continues)
next
  case Reconnect
  with assms show ?thesis
    by (cases "whatsappClient s") (simp_all add: retries_done_destroy)
next
  case (ReconnectContinues ok)
  with assms show ?thesis by simp
next
  case Logout
  with assms show ?thesis by simp
next
  case LogoutContinues
  with assms show ?thesis
    by (simp add: retries_done_destroy)
next
  case LogoutTimer
  with assms show ?thesis by simp
qed

lemma retrying_run:
  "state_ok s \<Longrightarrow> count_status ''retrying'' s \<le> retries_done s \<Longrightarrow>
     count_status ''retrying'' (run acts s) \<le> retries_done (run acts s)"
  unfolding run_def
  by (induction acts arbitrary: s) (simp_all add: state_ok_step retrying_step)

lemma map_field_update:
  assumes "\<And>r. g (f r) = g r"
  shows "map g (clients (update_client i f s)) = map g (clients s)"
proof (cases "i < length (clients s)")
  case True
  then have "(map g (clients s))[i := g (clients s ! i)] = map g (clients s)"
    by (metis list_update_id nth_map)
  with assms show ?thesis by (simp add: update_client_def map_update)
next
  case False
  then show ?thesis by (simp add: update_client_def list_update_beyond)
qed

lemma map_field_destroy:
  assumes "\<And>r b. g (r\<lparr>destroyed := b\<rparr>) = g r"
  shows "map g (clients (destroy_current s)) = map g (clients s)"
  by (cases "whatsappClient s") (simp_all add: destroy_current_def map_field_update assms)

lemma nth_field_update:
  assumes "\<And>r. g (f r) = g r" and "j < length (clients s)"
  shows "g (clients (update_client i f s) ! j) = g (clients s ! j)"
  using map_field_update [of g f i s, OF assms(1)] assms(2)
  by (metis length_map nth_map update_client_fields(1))

lemma nth_field_destroy:
  assumes "\<And>r b. g (r\<lparr>destroyed := b\<rparr>) = g r" and "j < length (clients s)"
  shows "g (clients (destroy_current s) ! j) = g (clients s ! j)"
  by (cases "whatsappClient s") (simp_all add: destroy_current_def nth_field_update assms)

lemma length_destroy [simp]: "length (clients (destroy_current s)) = length (clients s)"
  by (cases "whatsappClient s") (simp_all add: destroy_current_def)

lemma eventReceived_mark:
  "j < length (clients s) \<Longrightarrow>
     eventReceived (clients (markEventReceived i s) ! j) = (eventReceived (clients s ! j) \<or> i = j)"
  by (cases "i = j") (simp_all add: markEventReceived_def update_client_def)

lemma eventReceived_doRetry:
  "j < length (clients s) \<Longrightarrow>
     eventReceived (clients (doRetry i s) ! j) = eventReceived (clients s ! j)"
  by (simp add: doRetry_def nth_field_destroy nth_field_update)

lemma eventReceived_continues:
  "j < length (clients s) \<Longrightarrow>
     eventReceived (clients (doRetry_continues i s) ! j) = eventReceived (clients s ! j)"
  by (simp add: doRetry_continues_def Let_def initWhatsApp_def nth_append nth_field_update)

lemma eventReceived_step:
  assumes "j < length (clients s)"
  shows "eventReceived (clients (step a s) ! j)
           = (eventReceived (clients s ! j) \<or> (\<exists>e. a = Emit j e \<and> is_init_event e))"
proof (cases a)
  case (Emit i e)
  with assms show ?thesis by (auto simp: emit_def eventReceived_mark)
next
  case (InitResolves i)
  with assms show ?thesis by (simp add: nth_field_update)
next
  case (InitRejects i err)
  with assms show ?thesis by (simp add: eventReceived_doRetry nth_field_update)
next
  case (TimerElapses i)
  with assms show ?thesis by (simp add: eventReceived_doRetry nth_field_update Let_def)
next
  case (RetryWaitDone i)
  with assms show ?thesis by (simp add: eventReceived_continues)
next
  case Reconnect
  with assms show ?thesis
    by (cases "whatsappClient s") (simp_all add: initWhatsApp_def nth_append nth_field_destroy)
next
  case (ReconnectContinues ok)
  with assms show ?thesis by (simp add: initWhatsApp_def nth_append)
next
  case Logout
  then show ?thesis by simp
next
  case LogoutContinues
  with assms show ?thesis by (simp add: nth_field_destroy)
next
  case LogoutTimer
  with assms show ?thesis by (simp add: initWhatsApp_def nth_append)
qed

lemma sent_fields [simp]:
  "sent (destroy_current s) = sent s"
  "sent (doRetry i s) = sent s"
  "authRemovals (destroy_current s) = authRemovals s"
  "authRemovals (doRetry i s) = authRemovals s"
  "whatsappClient (destroy_current s) = whatsappClient s"
  by (cases "whatsappClient s"; simp add: destroy_current_def doRetry_def)+

lemma timer_elapses_without_event:
  assumes "state_ok s" and "i < length (clients s)" and "timerArmed (clients s ! i)"
    and "\<not> eventReceived (clients s ! i)"
  shows "step (TimerElapses i) s
           = destroy_current
               (update_client i (\<lambda>r. r\<lparr>retryTriggered := True, retryWaiting := True\<rparr>)
                  (update_client i (\<lambda>r. r\<lparr>timerArmed := False\<rparr>) s))"
proof -
  from assms(1,2) have "client_ok (clients s ! i)"
    by (simp add: state_ok_def list_all_nth)
  with assms(3) have "\<not> retryTriggered (clients s ! i)" by (simp add: client_ok_def)
  with assms(2,3,4) show ?thesis
    by (simp add: Let_def doRetry_def update_client_nth)
qed

lemma timer_elapses_destroys:
  assumes ok: "state_ok s" and i: "i < length (clients s)" and armed: "timerArmed (clients s ! i)"
    and quiet: "\<not> eventReceived (clients s ! i)"
  shows "destroyed (clients (step (TimerElapses i) s) ! the (whatsappClient s))"
    and "retryTriggered (clients (step (TimerElapses i) s) ! i)"
    and "retryWaiting (clients (step (TimerElapses i) s) ! i)"
    and "\<not> timerArmed (clients (step (TimerElapses i) s) ! i)"
    and "attempt (clients (step (TimerElapses i) s) ! i) = attempt (clients s ! i)"
    and "eventReceived (clients (step (TimerElapses i) s) ! i) = eventReceived (clients s ! i)"
    and "map attempt (clients (step (TimerElapses i) s)) = map attempt (clients s)"
    and "sent (step (TimerElapses i) s) = sent s"
    and "authRemovals (step (TimerElapses i) s) = authRemovals s"
    and "length (clients (step (TimerElapses i) s)) = length (clients s)"
proof -
  let ?s2 = "update_client i (\<lambda>r. r\<lparr>retryTriggered := True, retryWaiting := True\<rparr>)
               (update_client i (\<lambda>r. r\<lparr>timerArmed := False\<rparr>) s)"
  note st = timer_elapses_without_event [OF ok i armed quiet]
  from ok obtain c where c: "whatsappClient s = Some c" "c < length (clients s)"
    by (auto simp: state_ok_def)
  then have d: "destroy_current ?s2 = update_client c (\<lambda>r. r\<lparr>destroyed := True\<rparr>) ?s2"
    by (simp add: destroy_current_def)
  show "destroyed (clients (step (TimerElapses i) s) ! the (whatsappClient s))"
    unfolding st d using c by (simp add: update_client_nth)
  show "retryTriggered (clients (step (TimerElapses i) s) ! i)"
    unfolding st using i by (simp add: nth_field_destroy update_client_nth)
  show "retryWaiting (clients (step (TimerElapses i) s) ! i)"
    unfolding st using i by (simp add: nth_field_destroy update_client_nth)
  show "\<not> timerArmed (clients (step (TimerElapses i) s) ! i)"
    unfolding st using i by (simp add: nth_field_destroy update_client_nth)
  show "attempt (clients (step (TimerElapses i) s) ! i) = attempt (clients s ! i)"
    unfolding st using i by (simp add: nth_field_destroy update_client_nth)
  show "eventReceived (clients (step (TimerElapses i) s) ! i) = eventReceived (clients s ! i)"
    unfolding st using i by (simp add: nth_field_destroy update_client_nth)
  show "map attempt (clients (step (TimerElapses i) s)) = map attempt (clients s)"
    unfolding st by (simp add: map_field_destroy map_field_update)
  show "sent (step (TimerElapses i) s) = sent s" unfolding st by simp
  show "authRemovals (step (TimerElapses i) s) = authRemovals s" unfolding st by simp
  show "length (clients (step (TimerElapses i) s)) = length (clients s)" unfolding st by simp
qed

lemma continues_retry:
  assumes "attempt (clients s ! i) < 3"
  shows "map attempt (clients (doRetry_continues i s))
           = map attempt (clients s) @ [attempt (clients s ! i) + 1]"
    and "sent (doRetry_continues i s) = sent s @ [Status ''retrying'']"
    and "authRemovals (doRetry_continues i s)
           = authRemovals s + (if eventReceived (clients s ! i) then 0 else 1)"
  using assms
  by (simp_all add: doRetry_continues_def Let_def initWhatsApp_def map_field_update send_def
        cleanupStaleLockFiles_def rmAuthDir_def)

lemma continues_give_up:
  assumes "\<not> attempt (clients s ! i) < 3"
  shows "map attempt (clients (doRetry_continues i s)) = map attempt (clients s)"
    and "sent (doRetry_continues i s) = sent s @ [Status ''error'', ErrorText FATAL]"
    and "authRemovals (doRetry_continues i s) = authRemovals s"
  using assms
  by (simp_all add: doRetry_continues_def Let_def map_field_update send_def)


text \<open>
  C1, as amended. Three initialization attempts in a row that each fail without any
  lifecycle event, by the timer or by a rejected \<open>initialize()\<close>, construct exactly three
  clients, with attempt numbers 1, 2 and 3, send "retrying" twice and then "error"
  with the fatal message, and leave every client destroyed. The auth directory is
  removed after the first failure and again after the second, twice in all, and not
  after the third.
\<close>

theorem three_failures_reach_error:
  "map attempt (clients (run (three_failures f1 f2 f3) boot)) = [1, 2, 3]
   \<and> list_all destroyed (clients (run (three_failures f1 f2 f3) boot))
   \<and> list_all (\<lambda>r. \<not> eventReceived r) (clients (run (three_failures f1 f2 f3) boot))
   \<and> sent (run (three_failures f1 f2 f3) boot)
       = [Status ''retrying'', Status ''retrying'', Status ''error'', ErrorText FATAL]
   \<and> authRemovals (run (take 2 (three_failures f1 f2 f3)) boot) = 1
   \<and> authRemovals (run (take 4 (three_failures f1 f2 f3)) boot) = 2
   \<and> authRemovals (run (three_failures f1 f2 f3) boot) = 2"
  by (cases f1; cases f2; cases f3) (simp_all add: sup_defs three_failures_def)

theorem three_failures_reach_error_witness:
  "map attempt (clients (run (three_failures ByTimeout ByInitError ByTimeout) boot)) = [1, 2, 3]
   \<and> sent (run (three_failures ByTimeout ByInitError ByTimeout) boot)
       = [Status ''retrying'', Status ''retrying'', Status ''error'', ErrorText FATAL]
   \<and> authRemovals (run (three_failures ByTimeout ByInitError ByTimeout) boot) = 2"
  using three_failures_reach_error [of ByTimeout ByInitError ByTimeout] by simp

text \<open>
  The claim as stated, that the auth directory is removed exactly once, fails: after
  three rejected initializations it has been removed twice.
\<close>

theorem three_failures_reach_error_counterexample:
  "length (clients (run (three_failures ByInitError ByInitError ByInitError) boot)) = 3
   \<and> count_status ''error'' (run (three_failures ByInitError ByInitError ByInitError) boot) = 1
   \<and> authRemovals (run (three_failures ByInitError ByInitError ByInitError) boot) = 2"
  by (simp add: sup_defs three_failures_def count_status_def)

text \<open>
  C3, as amended. Within one initialization attempt \<open>doRetry\<close> is single-flight: once
  the attempt's \<open>retryTriggered\<close> flag is set, a further call of \<open>doRetry\<close> changes
  nothing, so a rejected \<open>initialize()\<close> or the timer arriving afterwards tears nothing
  down, sends nothing and constructs no client. In every interleaving the number of
  "retrying" messages sent is at most the number of attempts whose \<open>doRetry\<close> has run to
  its end: at most one per attempt.
\<close>

theorem doRetry_single_flight:
  "(retryTriggered (clients s ! i) \<longrightarrow>
       doRetry i s = s
       \<and> sent (step (InitRejects i err) s) = sent s
       \<and> map destroyed (clients (step (InitRejects i err) s)) = map destroyed (clients s)
       \<and> map attempt (clients (step (InitRejects i err) s)) = map attempt (clients s)
       \<and> sent (step (TimerElapses i) s) = sent s
       \<and> map destroyed (clients (step (TimerElapses i) s)) = map destroyed (clients s)
       \<and> map attempt (clients (step (TimerElapses i) s)) = map attempt (clients s))
   \<and> count_status ''retrying'' (run acts boot) \<le> retries_done (run acts boot)"
proof
  show "retryTriggered (clients s ! i) \<longrightarrow>
       doRetry i s = s
       \<and> sent (step (InitRejects i err) s) = sent s
       \<and> map destroyed (clients (step (InitRejects i err) s)) = map destroyed (clients s)
       \<and> map attempt (clients (step (InitRejects i err) s)) = map attempt (clients s)
       \<and> sent (step (TimerElapses i) s) = sent s
       \<and> map destroyed (clients (step (TimerElapses i) s)) = map destroyed (clients s)
       \<and> map attempt (clients (step (TimerElapses i) s)) = map attempt (clients s)"
    by (simp add: doRetry_def update_client_nth map_field_update Let_def)
  have "count_status ''retrying'' boot \<le> retries_done boot"
    by (simp add: boot_def count_status_def initWhatsApp_def retries_done_def)
  with state_ok_boot show "count_status ''retrying'' (run acts boot) \<le> retries_done (run acts boot)"
    by (rule retrying_run)
qed

theorem doRetry_single_flight_witness:
  "retryTriggered (clients (run [TimerElapses 0] boot) ! 0)
   \<and> doRetry 0 (run [TimerElapses 0] boot) = run [TimerElapses 0] boot
   \<and> sent (step (InitRejects 0 ''init failed'') (run [TimerElapses 0] boot)) = []
   \<and> map destroyed (clients (step (InitRejects 0 ''init failed'') (run [TimerElapses 0] boot)))
       = [True]
   \<and> count_status ''retrying''
        (run [TimerElapses 0, InitRejects 0 ''init failed'', RetryWaitDone 0, RetryWaitDone 0] boot)
       = 1
   \<and> retries_done
        (run [TimerElapses 0, InitRejects 0 ''init failed'', RetryWaitDone 0, RetryWaitDone 0] boot)
       = 1"
  using doRetry_single_flight [of "run [TimerElapses 0] boot" 0 "''init failed''"
          "[TimerElapses 0, InitRejects 0 ''init failed'', RetryWaitDone 0, RetryWaitDone 0]"]
  by (simp add: sup_defs count_status_def retries_done_def)

text \<open>
  The claim as stated fails: the flag belongs to the attempt, and reconnect-whatsapp does
  not look at it. When the first attempt's \<open>initialize()\<close> rejects and a reconnect arrives
  during the wait in \<open>doRetry\<close>, the reconnect constructs a client and the retry
  constructs another; neither of the two has been destroyed.
\<close>

theorem doRetry_single_flight_counterexample:
  "live_clients (run reconnect_during_retry boot) = 2
   \<and> map destroyed (clients (run reconnect_during_retry boot)) = [True, False, False]
   \<and> map attempt (clients (run reconnect_during_retry boot)) = [1, 1, 2]
   \<and> whatsappClient (run reconnect_during_retry boot) = Some 2"
  by (simp add: sup_defs reconnect_during_retry_def live_clients_def)





text \<open>
  C6. The claim says that the disconnected handler and the auth_failure handler both
  clear \<open>isClientReady\<close>, send their status and start no retry. On the code the handler
  for disconnected does all of this. The handler for auth_failure sends its status and
  starts no retry, but it does not touch the flag: after ready and then auth_failure on
  the same client the flag is still set.
\<close>

theorem auth_failure_keeps_ready:
  "isClientReady (run [Emit 0 EvReady, Emit 0 (EvAuthFailure ''bad session'')] boot)
   \<and> sent (run [Emit 0 EvReady, Emit 0 (EvAuthFailure ''bad session'')] boot)
       = [Status ''ready'', Status ''auth_failure'']
   \<and> length (clients (run [Emit 0 EvReady, Emit 0 (EvAuthFailure ''bad session'')] boot)) = 1
   \<and> \<not> isClientReady (run [Emit 0 EvReady, Emit 0 (EvDisconnected ''lost'')] boot)
   \<and> sent (run [Emit 0 EvReady, Emit 0 (EvDisconnected ''lost'')] boot)
       = [Status ''ready'', Status ''disconnected'']
   \<and> length (clients (run [Emit 0 EvReady, Emit 0 (EvDisconnected ''lost'')] boot)) = 1"
  by (simp add: sup_defs emit_def)

end
